theory Spec2Isabelle
  imports Complex_Main
begin

section \<open>JSON values as the script sees them\<close>

text \<open>
  Every datum the editor script handles (a GeoJSON collection, a feature, a property bag,
  a history snapshot) arrives through \<^verbatim>\<open>resp.json()\<close> or \<^verbatim>\<open>JSON.parse\<close>, so it is a JSON tree.
  Numbers are only copied and compared by the script, never computed on.
  An object is an association list; a lookup takes the first binding of a key.
\<close>

datatype json =
    JNull
  | JBool bool
  | JNum real
  | JStr string
  | JArr "json list"
  | JObj "(string \<times> json) list"

text \<open>JavaScript truthiness (\<^verbatim>\<open>if (x)\<close>, \<^verbatim>\<open>!x\<close>, \<^verbatim>\<open>x || y\<close>) on a JSON value.\<close>

fun truthy :: "json \<Rightarrow> bool" where
  "truthy JNull = False"
| "truthy (JBool b) = b"
| "truthy (JNum n) = (n \<noteq> 0)"
| "truthy (JStr s) = (s \<noteq> [])"
| "truthy (JArr _) = True"
| "truthy (JObj _) = True"

section \<open>ResponseCache\<close>

text \<open>
  \<^verbatim>\<open>const CACHE_TTL_MS = 5 * 60 * 1000;\<close>
  An entry is \<^verbatim>\<open>{ ts: Date.now(), data }\<close>. A cache is a JavaScript \<^verbatim>\<open>Map\<close>; the parameter
  \<^verbatim>\<open>map\<close> of the two functions may be \<^verbatim>\<open>null\<close> (\<open>None\<close>). The clock reading
  \<^verbatim>\<open>Date.now()\<close> is the first argument.
\<close>

definition CACHE_TTL_MS :: int where
  "CACHE_TTL_MS = 5 * 60 * 1000"

record cache_entry =
  ts :: int
  data :: json

type_synonym 'k cache = "'k \<rightharpoonup> cache_entry"

definition cacheGet :: "int \<Rightarrow> 'k cache option \<Rightarrow> 'k \<Rightarrow> json \<times> 'k cache option" where
  "cacheGet now_ms cmap key =
     (case cmap of
        None \<Rightarrow> (JNull, None)
      | Some m \<Rightarrow>
          (case m key of
             None \<Rightarrow> (JNull, Some m)
           | Some entry \<Rightarrow>
               if now_ms - ts entry > CACHE_TTL_MS
               then (JNull, Some (m(key := None)))
               else (data entry, Some m)))"

definition cacheSet :: "int \<Rightarrow> 'k cache option \<Rightarrow> 'k \<Rightarrow> json \<Rightarrow> 'k cache option" where
  "cacheSet now_ms cmap key d =
     (case cmap of
        None \<Rightarrow> None
      | Some m \<Rightarrow> Some (m(key \<mapsto> \<lparr>ts = now_ms, data = d\<rparr>)))"

section \<open>Errors and their messages\<close>

text \<open>
  A thrown JavaScript \<^verbatim>\<open>Error\<close> is a value carrying its \<^verbatim>\<open>message\<close>. Strings are byte
  lists (UTF-8); the Chinese texts of the script are written out as their bytes.
  \<^verbatim>\<open>msg.includes(sub)\<close> is a substring test, and \<open>show_nat\<close> is the decimal rendering
  that a template literal gives a status code.
\<close>

datatype js_error = Error (message: string)

fun js_includes :: "string \<Rightarrow> string \<Rightarrow> bool" where
  "js_includes [] sub = (sub = [])"
| "js_includes (c # cs) sub = (take (length sub) (c # cs) = sub \<or> js_includes cs sub)"

definition digit_char :: "nat \<Rightarrow> char" where
  "digit_char d = ''0123456789'' ! d"

fun show_nat :: "nat \<Rightarrow> string" where
  "show_nat n = (if n < 10 then [digit_char n] else show_nat (n div 10) @ [digit_char (n mod 10)])"

declare show_nat.simps [simp del]

text \<open>The text \<^verbatim>\<open>request failed:\<close> (in Chinese, with an ASCII colon) of \<^verbatim>\<open>fetchJsonWithCache\<close>.\<close>

definition msg_request_failed :: "nat \<Rightarrow> string" where
  "msg_request_failed code =
     [CHR 0xE8, CHR 0xAF, CHR 0xB7, CHR 0xE6, CHR 0xB1, CHR 0x82, CHR 0xE5, CHR 0xA4, CHR 0xB1,
      CHR 0xE8, CHR 0xB4, CHR 0xA5, CHR '':''] @ show_nat code"

text \<open>The text \<^verbatim>\<open>save failed\<close> of \<^verbatim>\<open>saveGeoJSON\<close>.\<close>

definition msg_save_failed :: string where
  "msg_save_failed =
     [CHR 0xE4, CHR 0xBF, CHR 0x9D, CHR 0xE5, CHR 0xAD, CHR 0x98, CHR 0xE5, CHR 0xA4, CHR 0xB1,
      CHR 0xE8, CHR 0xB4, CHR 0xA5]"

text \<open>The text \<^verbatim>\<open>history version read failed\<close> of \<^verbatim>\<open>restoreHistoryAsCurrent\<close>.\<close>

definition msg_history_read_failed :: string where
  "msg_history_read_failed =
     [CHR 0xE5, CHR 0x8E, CHR 0x86, CHR 0xE5, CHR 0x8F, CHR 0xB2, CHR 0xE7, CHR 0x89, CHR 0x88,
      CHR 0xE6, CHR 0x9C, CHR 0xAC, CHR 0xE8, CHR 0xAF, CHR 0xBB, CHR 0xE5, CHR 0x8F, CHR 0x96,
      CHR 0xE5, CHR 0xA4, CHR 0xB1, CHR 0xE8, CHR 0xB4, CHR 0xA5]"

section \<open>The backend, seen through fetch\<close>

text \<open>
  A URL of the REST contract is an \<open>endpoint\<close>; \<^verbatim>\<open>encodeURIComponent\<close> and the query string
  are injective, so the structured form loses nothing. \<^verbatim>\<open>ApiHistoryList file school\<close> is
  \<^verbatim>\<open>/api/history?file_name=..&school_name=..\<close>, the school parameter being left out when
  the name is empty.
  A response has a status code and a body that \<^verbatim>\<open>resp.json()\<close> either parses (\<open>Inr\<close>) or
  rejects with a message (\<open>Inl\<close>); \<^verbatim>\<open>resp.ok\<close> is the status range 200 to 299.
  \<^verbatim>\<open>fetch\<close> itself rejects on a transport failure.
  The backend is a parameter \<open>net\<close>: the answer to the n-th request of the session,
  with the clock reading at which the answer is there. The \<open>world\<close> is the log of the
  requests issued so far and the clock (\<^verbatim>\<open>Date.now()\<close>).
\<close>

datatype endpoint =
    ApiIndex
  | ApiPolygons string
  | ApiPoints string
  | ApiItems string
  | ApiHistoryList string string
  | ApiHistoryItem string
  | ApiSaveAll

datatype request = Get endpoint | Post endpoint json

record response =
  status :: nat
  body :: "string + json"

definition ok :: "response \<Rightarrow> bool" where
  "ok resp = (200 \<le> status resp \<and> status resp \<le> 299)"

datatype fetch_result = Rejected string | Resolved response

type_synonym network = "nat \<Rightarrow> request \<Rightarrow> int \<times> fetch_result"

record world =
  requests :: "request list"
  clock :: int

definition fetch :: "network \<Rightarrow> request \<Rightarrow> world \<Rightarrow> fetch_result \<times> world" where
  "fetch net req w =
     (case net (length (requests w)) req of
        (t, r) \<Rightarrow> (r, \<lparr>requests = requests w @ [req], clock = t\<rparr>))"

text \<open>
  \<^verbatim>\<open>fetchJsonWithCache(url, cacheMap, cacheKey, force = false)\<close>. The cache is passed by
  reference in the script; here the map after the call is returned with the result.
\<close>

definition fetchJsonWithCache ::
  "network \<Rightarrow> endpoint \<Rightarrow> 'k cache option \<Rightarrow> 'k \<Rightarrow> bool \<Rightarrow> world
     \<Rightarrow> (js_error + json) \<times> 'k cache option \<times> world" where
  "fetchJsonWithCache net url cacheMap cacheKey force w =
     (let (cached, cm) =
            (if \<not> force then cacheGet (clock w) cacheMap cacheKey else (JNull, cacheMap))
      in if \<not> force \<and> truthy cached then (Inr cached, cm, w)
         else
           (case fetch net (Get url) w of
              (Rejected msg, w') \<Rightarrow> (Inl (Error msg), cm, w')
            | (Resolved resp, w') \<Rightarrow>
                if \<not> ok resp then (Inl (Error (msg_request_failed (status resp))), cm, w')
                else
                  (case body resp of
                     Inl msg \<Rightarrow> (Inl (Error msg), cm, w')
                   | Inr d \<Rightarrow> (Inr d, cacheSet (clock w') cm cacheKey d, w'))))"

section \<open>GeoJSON filter\<close>

text \<open>
  Property access \<^verbatim>\<open>obj.key\<close> on a value that is not \<^verbatim>\<open>null\<close>: an object gives the member
  or \<^verbatim>\<open>undefined\<close> (\<open>None\<close>); an array, string, number or boolean has none of the keys the
  script reads (\<^verbatim>\<open>type\<close>, \<^verbatim>\<open>features\<close>, \<^verbatim>\<open>geometry\<close>, \<^verbatim>\<open>properties\<close>, \<^verbatim>\<open>coordinates\<close>,
  \<^verbatim>\<open>school_name\<close>, \<^verbatim>\<open>file_name\<close>, \<^verbatim>\<open>polygons\<close>, \<^verbatim>\<open>points\<close>). With optional chaining
  (\<^verbatim>\<open>f?.key\<close>) \<^verbatim>\<open>null\<close> gives \<^verbatim>\<open>undefined\<close> too, which is the last equation; a plain access
  on \<^verbatim>\<open>null\<close> throws, and the functions below test for it where the script can meet it.
\<close>

fun field :: "json \<Rightarrow> string \<Rightarrow> json option" where
  "field (JObj kvs) k = map_of kvs k"
| "field _ k = None"

text \<open>\<^verbatim>\<open>x || {}\<close> for a possibly undefined \<^verbatim>\<open>x\<close>.\<close>

definition or_empty_object :: "json option \<Rightarrow> json" where
  "or_empty_object v = (case v of None \<Rightarrow> JObj [] | Some x \<Rightarrow> if truthy x then x else JObj [])"

definition FeatureCollection :: "json list \<Rightarrow> json" where
  "FeatureCollection features = JObj [(''type'', JStr ''FeatureCollection''), (''features'', JArr features)]"

text \<open>
  The callback of \<^verbatim>\<open>.filter\<close>:
  \<^verbatim>\<open>const props = f?.properties || {}; return props.school_name === schoolName;\<close>
  The name comes from the value of a \<^verbatim>\<open>select\<close> element, so it is a string, and strict
  equality with a string holds for an equal string only.
\<close>

definition school_matches :: "string \<Rightarrow> json \<Rightarrow> bool" where
  "school_matches schoolName f =
     (field (or_empty_object (field f ''properties'')) ''school_name'' = Some (JStr schoolName))"

text \<open>
  A function that hands back its own argument (\<^verbatim>\<open>return geojson\<close>) returns the same object,
  not a copy; an object literal is a new object. The result says which: \<open>Same\<close> is the
  argument itself, \<open>Fresh v\<close> a newly built value.
\<close>

datatype 'a returned = Same | Fresh 'a

definition returned_value :: "'a \<Rightarrow> 'a returned \<Rightarrow> 'a" where
  "returned_value arg r = (case r of Same \<Rightarrow> arg | Fresh v \<Rightarrow> v)"

text \<open>
  \<^verbatim>\<open>filterGeoJSONBySchool(geojson, schoolName)\<close>. \<^verbatim>\<open>(geojson.features || [])\<close> is the member
  when it is truthy; \<^verbatim>\<open>.filter\<close> exists on arrays only, so any other truthy member is a
  \<^verbatim>\<open>TypeError\<close>.
\<close>

definition filterGeoJSONBySchool :: "json \<Rightarrow> string \<Rightarrow> js_error + json returned" where
  "filterGeoJSONBySchool geojson schoolName =
     (if \<not> truthy geojson \<or> schoolName = [] then Inr Same
      else if field geojson ''type'' \<noteq> Some (JStr ''FeatureCollection'') then Inr Same
      else
        (case field geojson ''features'' of
           None \<Rightarrow> Inr (Fresh (FeatureCollection []))
         | Some fs \<Rightarrow>
             if \<not> truthy fs then Inr (Fresh (FeatureCollection []))
             else
               (case fs of
                  JArr xs \<Rightarrow> Inr (Fresh (FeatureCollection (filter (school_matches schoolName) xs)))
                | _ \<Rightarrow> Inl (Error ''(geojson.features || []).filter is not a function''))))"

section \<open>Overlays of the map surface\<close>

text \<open>
  Modelled from the spec: the overlay classes of the map SDK (\<^verbatim>\<open>AMap.Marker\<close>,
  \<^verbatim>\<open>AMap.Polyline\<close>, \<^verbatim>\<open>AMap.Polygon\<close>), a third-party library that the repository uses and
  does not contain. An overlay keeps its geometry as coordinate objects with members
  \<^verbatim>\<open>lng\<close> and \<^verbatim>\<open>lat\<close> and its \<^verbatim>\<open>extData\<close>; a marker can be draggable. The path of a polygon
  is one ring or a list of rings (the script's \<^verbatim>\<open>polygonPathToCoordinates\<close> reads both).
  A constructor turns GeoJSON coordinates (arrays of numbers) into coordinate objects and
  rejects anything else. Stroke, fill and marker content do not enter any property here
  and are left out, and with them the \<^verbatim>\<open>options\<close> parameter that only carries them.
\<close>

datatype lnglat = LngLat (lng: real) (lat: real)

datatype polygon_path = Ring "lnglat list" | Rings "lnglat list list"

datatype overlay =
    Marker lnglat json bool
  | Polyline "lnglat list" json
  | Polygon polygon_path json

fun getExtData :: "overlay \<Rightarrow> json" where
  "getExtData (Marker _ ext _) = ext"
| "getExtData (Polyline _ ext) = ext"
| "getExtData (Polygon _ ext) = ext"

fun to_lnglat :: "json \<Rightarrow> lnglat option" where
  "to_lnglat (JArr (JNum x # JNum y # _)) = Some (LngLat x y)"
| "to_lnglat _ = None"

fun to_line :: "json \<Rightarrow> lnglat list option" where
  "to_line (JArr ps) = those (map to_lnglat ps)"
| "to_line _ = None"

fun to_polygon_path :: "json \<Rightarrow> polygon_path option" where
  "to_polygon_path (JArr rs) =
     (case those (map to_lnglat rs) of
        Some ring \<Rightarrow> Some (Ring ring)
      | None \<Rightarrow> map_option Rings (those (map to_line rs)))"
| "to_polygon_path _ = None"

definition invalid_coordinates :: js_error where
  "invalid_coordinates = Error ''Invalid Object: LngLat''"

definition new_Marker :: "json option \<Rightarrow> json \<Rightarrow> js_error + overlay" where
  "new_Marker coords props =
     (case Option.bind coords to_lnglat of
        None \<Rightarrow> Inl invalid_coordinates
      | Some p \<Rightarrow> Inr (Marker p props False))"

definition new_Polyline :: "json option \<Rightarrow> json \<Rightarrow> js_error + overlay" where
  "new_Polyline coords props =
     (case Option.bind coords to_line of
        None \<Rightarrow> Inl invalid_coordinates
      | Some l \<Rightarrow> Inr (Polyline l props))"

definition new_Polygon :: "json option \<Rightarrow> json \<Rightarrow> js_error + overlay" where
  "new_Polygon coords props =
     (case Option.bind coords to_polygon_path of
        None \<Rightarrow> Inl invalid_coordinates
      | Some pp \<Rightarrow> Inr (Polygon pp props))"

text \<open>A \<^verbatim>\<open>forEach\<close> or \<^verbatim>\<open>flatMap\<close> whose callback may throw stops at the first throw.\<close>

fun collect :: "('e + 'a) list \<Rightarrow> 'e + 'a list" where
  "collect [] = Inr []"
| "collect (Inl e # _) = Inl e"
| "collect (Inr x # rest) = (case collect rest of Inl e \<Rightarrow> Inl e | Inr xs \<Rightarrow> Inr (x # xs))"

definition not_iterable :: js_error where
  "not_iterable = Error ''coords.forEach is not a function''"

text \<open>
  \<^verbatim>\<open>createOverlaysFromFeature(feature, options)\<close>: nothing for a feature without geometry,
  one overlay for a simple geometry, one per element for a multi-geometry, nothing for
  any other geometry type.
\<close>

definition createOverlaysFromFeature :: "json \<Rightarrow> js_error + overlay list" where
  "createOverlaysFromFeature feature =
     (case field feature ''geometry'' of
        None \<Rightarrow> Inr []
      | Some geometry \<Rightarrow>
          if \<not> truthy geometry then Inr []
          else
            (let props = or_empty_object (field feature ''properties'');
                 type = field geometry ''type'';
                 coords = field geometry ''coordinates''
             in if type = Some (JStr ''Point'') then collect [new_Marker coords props]
                else if type = Some (JStr ''MultiPoint'') then
                  (case coords of
                     Some (JArr ps) \<Rightarrow> collect (map (\<lambda>point. new_Marker (Some point) props) ps)
                   | _ \<Rightarrow> Inl not_iterable)
                else if type = Some (JStr ''LineString'') then collect [new_Polyline coords props]
                else if type = Some (JStr ''MultiLineString'') then
                  (case coords of
                     Some (JArr ls) \<Rightarrow> collect (map (\<lambda>line. new_Polyline (Some line) props) ls)
                   | _ \<Rightarrow> Inl not_iterable)
                else if type = Some (JStr ''Polygon'') then collect [new_Polygon coords props]
                else if type = Some (JStr ''MultiPolygon'') then
                  (case coords of
                     Some (JArr polys) \<Rightarrow> collect (map (\<lambda>poly. new_Polygon (Some poly) props) polys)
                   | _ \<Rightarrow> Inl not_iterable)
                else Inr []))"

text \<open>
  \<^verbatim>\<open>createOverlaysFromGeoJSON(geojson, options)\<close>: a collection (whose \<^verbatim>\<open>features\<close> must
  then be an array, \<^verbatim>\<open>flatMap\<close> being called on it), a single feature, or a bare geometry.
\<close>

definition createOverlaysFromGeoJSON :: "json \<Rightarrow> js_error + overlay list" where
  "createOverlaysFromGeoJSON geojson =
     (if \<not> truthy geojson then Inr []
      else if field geojson ''type'' = Some (JStr ''FeatureCollection'') then
        (case field geojson ''features'' of
           Some (JArr fs) \<Rightarrow>
             (case collect (map createOverlaysFromFeature fs) of
                Inl e \<Rightarrow> Inl e
              | Inr os \<Rightarrow> Inr (concat os))
         | _ \<Rightarrow> Inl (Error ''geojson.features.flatMap is not a function''))
      else if field geojson ''type'' = Some (JStr ''Feature'') then createOverlaysFromFeature geojson
      else createOverlaysFromFeature
             (JObj [(''type'', JStr ''Feature''), (''geometry'', geojson), (''properties'', JObj [])]))"

text \<open>\<^verbatim>\<open>toLngLatArray\<close> and \<^verbatim>\<open>polygonPathToCoordinates\<close>.\<close>

definition toLngLatArray :: "lnglat list \<Rightarrow> json" where
  "toLngLatArray path = JArr (map (\<lambda>p. JArr [JNum (lng p), JNum (lat p)]) path)"

fun polygonPathToCoordinates :: "polygon_path \<Rightarrow> json" where
  "polygonPathToCoordinates (Ring path) = (if path = [] then JArr [] else JArr [toLngLatArray path])"
| "polygonPathToCoordinates (Rings rings) = JArr (map toLngLatArray rings)"

definition Feature :: "string \<Rightarrow> json \<Rightarrow> json \<Rightarrow> json" where
  "Feature gtype coordinates props =
     JObj [(''type'', JStr ''Feature''),
           (''geometry'', JObj [(''type'', JStr gtype), (''coordinates'', coordinates)]),
           (''properties'', props)]"

text \<open>
  One round of the \<^verbatim>\<open>forEach\<close> of \<^verbatim>\<open>overlaysToGeoJSON\<close>: what the overlay pushes onto
  \<^verbatim>\<open>features\<close>. \<^verbatim>\<open>const props = overlay.getExtData?.() || {};\<close>
\<close>

fun overlay_features :: "string \<Rightarrow> overlay \<Rightarrow> json list" where
  "overlay_features geometryType (Marker pos ext d) =
     (if geometryType = ''Point''
      then [Feature ''Point'' (JArr [JNum (lng pos), JNum (lat pos)]) (or_empty_object (Some ext))]
      else [])"
| "overlay_features geometryType (Polygon path ext) =
     (if geometryType = ''Polygon''
      then [Feature ''Polygon'' (polygonPathToCoordinates path) (or_empty_object (Some ext))]
      else [])"
| "overlay_features geometryType (Polyline path ext) =
     (if geometryType = ''LineString''
      then [Feature ''LineString'' (toLngLatArray path) (or_empty_object (Some ext))]
      else [])"

definition overlaysToGeoJSON :: "overlay list option \<Rightarrow> string \<Rightarrow> json" where
  "overlaysToGeoJSON overlays geometryType =
     (case overlays of
        None \<Rightarrow> FeatureCollection []
      | Some os \<Rightarrow> FeatureCollection (concat (map (overlay_features geometryType) os)))"

text \<open>The tests \<^verbatim>\<open>overlay instanceof AMap.Marker\<close> and \<^verbatim>\<open>overlay instanceof AMap.Polyline\<close>.\<close>

fun isMarker :: "overlay \<Rightarrow> bool" where
  "isMarker (Marker _ _ _) = True"
| "isMarker _ = False"

fun isPolyline :: "overlay \<Rightarrow> bool" where
  "isPolyline (Polyline _ _) = True"
| "isPolyline _ = False"

text \<open>\<^verbatim>\<open>feature.geometry.type\<close> of a feature that has a geometry.\<close>

definition geometry_type :: "json \<Rightarrow> json option" where
  "geometry_type f = Option.bind (field f ''geometry'') (\<lambda>g. field g ''type'')"

section \<open>The session state\<close>

text \<open>
  The module variables of the editor script and the parts of the page it reads and
  writes. A layer variable is \<^verbatim>\<open>null\<close> (\<open>None\<close>) or the array of its overlays; an
  original snapshot is \<^verbatim>\<open>null\<close> (\<open>JNull\<close>) or a collection.
  \<^verbatim>\<open>currentFileSource\<close> only ever holds one of three strings.
  \<open>polygonEditors\<close> holds the polygons that have an editor open.
  The status line is one constructor per message of the script; where the text embeds the
  message of an error, the constructor carries it (labels, counts and the school tag of
  the \<^verbatim>\<open>loaded\<close> messages are left out). Captions of the edit buttons are left out.
  A \<^verbatim>\<open>select\<close> element is its current value; the school selector has its option values
  too, because assigning a value that no option has leaves the selector empty.
\<close>

datatype source = Server | Local | History

datatype cache_kind = Polygons | Points | Items | HistoryList | HistoryItem | Index

datatype cache_key = Name string | Query string string

datatype status_line =
    StNotLoaded
  | StHistoryListFailed
  | StLoadingHistory
  | StHistoryLoadFailed string
  | StHistoryHasNoItems
  | StSelectHistoryFirst
  | StRestoring
  | StRestored
  | StRestoreFailed string
  | StLoaded
  | StLoadedPoints
  | StLoadedItems
  | StLocalPreviewOnly
  | StSaving
  | StSaved
  | StNoPolygonsToEdit
  | StSwitchToAllBeforeEdit
  | StPolygonEditOn
  | StNoPointsToEdit
  | StPointsEditOn
  | StPointsEditOff
  | StResetDone
  | StIndexRefreshed
  | StIndexFailed
  | StLoading
  | StLoadFailed string
  | StPointsMissing
  | StPointsLoadFailed string
  | StItemsMissing
  | StItemsLoadFailed string
  | StSwitchToAllBeforeSave
  | StNoPolygonsToSave
  | StNoPointsToSave
  | StSaveFailed string
  | StLocalParseFailed

record state =
  currentPolygonLayer :: "overlay list option"
  currentPointsLayer :: "overlay list option"
  currentItemsLayer :: "overlay list option"
  polygonEditors :: "overlay list"
  isPolygonEditing :: bool
  isPointsEditing :: bool
  originalPolygonGeoJSON :: json
  originalPointsGeoJSON :: json
  originalItemsGeoJSON :: json
  currentFileName :: "string option"
  currentFileSource :: source
  responseCache :: "cache_kind \<Rightarrow> cache_key cache"
  statusEl :: status_line
  fileSelect :: string
  schoolSelect :: string
  schoolOptions :: "string list"
  historySelect :: string
  showPointsCheckbox :: bool
  showItemsCheckbox :: bool
  io :: world

text \<open>The state when the script has been loaded, before \<^verbatim>\<open>initMap\<close> runs, at clock \<open>t0\<close>.\<close>

definition initial_state :: "int \<Rightarrow> state" where
  "initial_state t0 =
     \<lparr>currentPolygonLayer = None, currentPointsLayer = None, currentItemsLayer = None,
      polygonEditors = [], isPolygonEditing = False, isPointsEditing = False,
      originalPolygonGeoJSON = JNull, originalPointsGeoJSON = JNull, originalItemsGeoJSON = JNull,
      currentFileName = None, currentFileSource = Server,
      responseCache = (\<lambda>_. Map.empty),
      statusEl = StNotLoaded,
      fileSelect = [], schoolSelect = [], schoolOptions = [], historySelect = [],
      showPointsCheckbox = False, showItemsCheckbox = False,
      io = \<lparr>requests = [], clock = t0\<rparr>\<rparr>"

subsection \<open>Sequencing steps that may throw\<close>

text \<open>
  A step that may throw returns the error, if any, with the state at that moment:
  what was assigned before the throw stays assigned.
\<close>

type_synonym step = "state \<Rightarrow> js_error option \<times> state"

definition done_step :: "(state \<Rightarrow> state) \<Rightarrow> step" where
  "done_step f s = (None, f s)"

definition and_then :: "step \<Rightarrow> step \<Rightarrow> step" where
  "and_then f g s = (case f s of (Some e, s') \<Rightarrow> (Some e, s') | (None, s') \<Rightarrow> g s')"

definition try_catch :: "step \<Rightarrow> (js_error \<Rightarrow> state \<Rightarrow> state) \<Rightarrow> state \<Rightarrow> state" where
  "try_catch f handler s = (case f s of (Some e, s') \<Rightarrow> handler e s' | (None, s') \<Rightarrow> s')"

subsection \<open>Small helpers of the script\<close>

definition setStatus :: "status_line \<Rightarrow> state \<Rightarrow> state" where
  "setStatus t s = s\<lparr>statusEl := t\<rparr>"

text \<open>\<^verbatim>\<open>obj ? JSON.parse(JSON.stringify(obj)) : null\<close>; the copy of a JSON tree is the tree.\<close>

definition cloneGeoJSON :: "json \<Rightarrow> json" where
  "cloneGeoJSON obj = (if truthy obj then obj else JNull)"

definition getSelectedSchool :: "state \<Rightarrow> string" where
  "getSelectedSchool s = schoolSelect s"

definition isSchoolFilterActive :: "state \<Rightarrow> bool" where
  "isSchoolFilterActive s = (getSelectedSchool s \<noteq> [])"

text \<open>\<^verbatim>\<open>select.value = v\<close>: the option with that value is selected, or none.\<close>

definition select_assign :: "string list \<Rightarrow> string \<Rightarrow> string" where
  "select_assign opts v = (if v = [] \<or> v \<in> set opts then v else [])"

text \<open>\<^verbatim>\<open>!currentFileName\<close>: \<^verbatim>\<open>null\<close> or the empty string.\<close>

definition no_file_name :: "string option \<Rightarrow> bool" where
  "no_file_name n = (case n of None \<Rightarrow> True | Some f \<Rightarrow> f = [])"

text \<open>\<^verbatim>\<open>!layer || !layer.length\<close>\<close>

definition no_overlays :: "overlay list option \<Rightarrow> bool" where
  "no_overlays layer = (case layer of None \<Rightarrow> True | Some os \<Rightarrow> os = [])"

text \<open>
  A string member of backend data, \<^verbatim>\<open>data.key || ''\<close>. The backend sends these members
  (\<^verbatim>\<open>file_name\<close>, \<^verbatim>\<open>school_name\<close>) as strings; another truthy value would be turned
  into a string by the page and is read here as the empty string.
\<close>

definition string_member :: "json \<Rightarrow> string \<Rightarrow> string" where
  "string_member d k = (case field d k of Some (JStr v) \<Rightarrow> v | _ \<Rightarrow> [])"

definition clearPolygonLayer :: "state \<Rightarrow> state" where
  "clearPolygonLayer s = s\<lparr>currentPolygonLayer := None\<rparr>"

definition clearPointsLayer :: "state \<Rightarrow> state" where
  "clearPointsLayer s = s\<lparr>currentPointsLayer := None\<rparr>"

definition clearItemsLayer :: "state \<Rightarrow> state" where
  "clearItemsLayer s = s\<lparr>currentItemsLayer := None\<rparr>"

definition clearAllLayers :: "state \<Rightarrow> state" where
  "clearAllLayers s = clearItemsLayer (clearPointsLayer (clearPolygonLayer s))"

definition closePolygonEditors :: "state \<Rightarrow> state" where
  "closePolygonEditors s = s\<lparr>polygonEditors := [], isPolygonEditing := False\<rparr>"

fun setDraggable :: "bool \<Rightarrow> overlay \<Rightarrow> overlay" where
  "setDraggable d (Marker pos ext _) = Marker pos ext d"
| "setDraggable d ov = ov"

definition setMarkersDraggable :: "overlay list option \<Rightarrow> bool \<Rightarrow> overlay list option" where
  "setMarkersDraggable overlays d = map_option (map (setDraggable d)) overlays"

definition disableAllEditing :: "state \<Rightarrow> state" where
  "disableAllEditing s =
     (let s1 = closePolygonEditors s
      in if isPointsEditing s1
         then s1\<lparr>currentPointsLayer := setMarkersDraggable (currentPointsLayer s1) False,
                 isPointsEditing := False\<rparr>
         else s1)"

subsection \<open>Cached reads on the session's caches\<close>

definition store_cache :: "cache_kind \<Rightarrow> cache_key cache option \<Rightarrow> state \<Rightarrow> state" where
  "store_cache kind cm s =
     (case cm of None \<Rightarrow> s | Some m \<Rightarrow> s\<lparr>responseCache := (responseCache s)(kind := m)\<rparr>)"

text \<open>The call \<^verbatim>\<open>fetchJsonWithCache(url, responseCache.kind, key, force)\<close> in a state.\<close>

definition fetchJson ::
  "network \<Rightarrow> endpoint \<Rightarrow> cache_kind \<Rightarrow> cache_key \<Rightarrow> bool \<Rightarrow> state \<Rightarrow> (js_error + json) \<times> state" where
  "fetchJson net url kind key force s =
     (case fetchJsonWithCache net url (Some (responseCache s kind)) key force (io s) of
        (r, cm, w) \<Rightarrow> (r, store_cache kind cm (s\<lparr>io := w\<rparr>)))"

subsection \<open>Option lists of the selectors\<close>

text \<open>
  \<^verbatim>\<open>setSchoolOptions(geojson)\<close> rebuilds the options, which leaves the selector on its
  first option (the empty value). The names are the truthy \<^verbatim>\<open>properties.school_name\<close>
  members, without repetition; the script sorts them for display, which nothing here
  depends on. A truthy \<^verbatim>\<open>features\<close> that is not an array has no \<^verbatim>\<open>forEach\<close>.
\<close>

definition school_name_of :: "json \<Rightarrow> string option" where
  "school_name_of f =
     (case Option.bind (field f ''properties'') (\<lambda>p. field p ''school_name'') of
        Some (JStr n) \<Rightarrow> if n = [] then None else Some n
      | _ \<Rightarrow> None)"

definition setSchoolOptions :: "json \<Rightarrow> step" where
  "setSchoolOptions geojson s =
     (let s1 = s\<lparr>schoolOptions := [], schoolSelect := []\<rparr>
      in if \<not> truthy geojson \<or> field geojson ''type'' \<noteq> Some (JStr ''FeatureCollection'')
         then (None, s1)
         else
           (case field geojson ''features'' of
              None \<Rightarrow> (None, s1)
            | Some fs \<Rightarrow>
                if \<not> truthy fs then (None, s1)
                else
                  (case fs of
                     JArr xs \<Rightarrow> (None, s1\<lparr>schoolOptions := remdups (List.map_filter school_name_of xs)\<rparr>)
                   | _ \<Rightarrow> (Some (Error ''(geojson.features || []).forEach is not a function''), s1))))"

text \<open>
  \<^verbatim>\<open>setHistoryOptions(items)\<close> rebuilds the options of the history selector, which leaves
  it on its first option (the empty value, the current version). The options themselves
  are not kept: nothing here reads them. What is kept is where the traversal throws:
  on a truthy value with a truthy \<^verbatim>\<open>length\<close> that is not an array, and on a \<^verbatim>\<open>null\<close> item.
\<close>

definition setHistoryOptions :: "json \<Rightarrow> step" where
  "setHistoryOptions items s =
     (let s1 = s\<lparr>historySelect := []\<rparr>
      in case items of
           JArr xs \<Rightarrow>
             if JNull \<in> set xs then (Some (Error ''Cannot read properties of null''), s1)
             else (None, s1)
         | JStr v \<Rightarrow>
             if v = [] then (None, s1) else (Some (Error ''items.forEach is not a function''), s1)
         | JObj kvs \<Rightarrow>
             (case map_of kvs ''length'' of
                None \<Rightarrow> (None, s1)
              | Some l \<Rightarrow>
                  if truthy l then (Some (Error ''items.forEach is not a function''), s1)
                  else (None, s1))
         | _ \<Rightarrow> (None, s1))"

definition resetHistoryOptions :: "state \<Rightarrow> state" where
  "resetHistoryOptions s = snd (setHistoryOptions (JArr []) s)"

subsection \<open>Rendering a layer\<close>

text \<open>
  \<^verbatim>\<open>renderGeoJSON\<close>, \<^verbatim>\<open>renderPointsGeoJSON\<close>, \<^verbatim>\<open>renderItemsGeoJSON\<close> with the option
  \<^verbatim>\<open>skipOriginal\<close>. The layer is cleared first; if building the overlays throws, nothing
  else has happened. The label only enters the status text.
\<close>

definition renderGeoJSON :: "json \<Rightarrow> bool \<Rightarrow> step" where
  "renderGeoJSON geojson skipOriginal s =
     (let s1 = clearPolygonLayer s
      in case createOverlaysFromGeoJSON geojson of
           Inl e \<Rightarrow> (Some e, s1)
         | Inr overlays \<Rightarrow>
             (None, setStatus StLoaded
                (s1\<lparr>currentPolygonLayer := Some overlays,
                     originalPolygonGeoJSON :=
                       (if skipOriginal then originalPolygonGeoJSON s1 else cloneGeoJSON geojson)\<rparr>)))"

definition renderPointsGeoJSON :: "json \<Rightarrow> bool \<Rightarrow> step" where
  "renderPointsGeoJSON geojson skipOriginal s =
     (let s1 = clearPointsLayer s
      in case createOverlaysFromGeoJSON geojson of
           Inl e \<Rightarrow> (Some e, s1)
         | Inr overlays \<Rightarrow>
             (None, setStatus StLoadedPoints
                (s1\<lparr>currentPointsLayer := Some overlays,
                     originalPointsGeoJSON :=
                       (if skipOriginal then originalPointsGeoJSON s1 else cloneGeoJSON geojson)\<rparr>)))"

definition renderItemsGeoJSON :: "json \<Rightarrow> bool \<Rightarrow> step" where
  "renderItemsGeoJSON geojson skipOriginal s =
     (let s1 = clearItemsLayer s
      in case createOverlaysFromGeoJSON geojson of
           Inl e \<Rightarrow> (Some e, s1)
         | Inr overlays \<Rightarrow>
             (None, setStatus StLoadedItems
                (s1\<lparr>currentItemsLayer := Some overlays,
                     originalItemsGeoJSON :=
                       (if skipOriginal then originalItemsGeoJSON s1 else cloneGeoJSON geojson)\<rparr>)))"

subsection \<open>History\<close>

text \<open>
  \<^verbatim>\<open>loadHistoryList(force = false)\<close>. The cache key is the query string, that is the file
  name and the selected school.
\<close>

definition loadHistoryList :: "network \<Rightarrow> bool \<Rightarrow> state \<Rightarrow> state" where
  "loadHistoryList net force s =
     (case currentFileName s of
        None \<Rightarrow> resetHistoryOptions s
      | Some file \<Rightarrow>
          if file = [] \<or> currentFileSource s \<noteq> Server then resetHistoryOptions s
          else
            try_catch
              (\<lambda>s0. case fetchJson net (ApiHistoryList file (getSelectedSchool s0)) HistoryList
                             (Query file (getSelectedSchool s0)) force s0 of
                       (Inl e, s1) \<Rightarrow> (Some e, s1)
                     | (Inr items, s1) \<Rightarrow> setHistoryOptions items s1)
              (\<lambda>err s2. resetHistoryOptions (setStatus StHistoryListFailed s2))
              s)"

text \<open>
  \<^verbatim>\<open>applyHistoryData(data, options)\<close> with \<^verbatim>\<open>options.asCurrent\<close>. Reading a member of
  \<^verbatim>\<open>null\<close> throws before anything is assigned.
\<close>

definition applyHistoryData :: "json \<Rightarrow> bool \<Rightarrow> step" where
  "applyHistoryData d asCurrent s =
     (if d = JNull then (Some (Error ''Cannot read properties of null''), s)
      else
        (let s1 = s\<lparr>currentFileName :=
                      (if string_member d ''file_name'' = [] then currentFileName s
                       else Some (string_member d ''file_name'')),
                    currentFileSource := (if asCurrent then Server else History)\<rparr>;
             s2 = s1\<lparr>schoolSelect := select_assign (schoolOptions s1) (string_member d ''school_name'')\<rparr>;
             s3 = clearAllLayers s2
         in and_then
              (case field d ''polygons'' of
                 None \<Rightarrow> done_step clearPolygonLayer
               | Some polygons \<Rightarrow>
                   if truthy polygons then renderGeoJSON polygons (\<not> asCurrent)
                   else done_step clearPolygonLayer)
              (and_then
                 (case field d ''points'' of
                    None \<Rightarrow> done_step clearPointsLayer
                  | Some points \<Rightarrow>
                      if showPointsCheckbox s3 \<and> truthy points
                      then renderPointsGeoJSON points (\<not> asCurrent)
                      else done_step clearPointsLayer)
                 (done_step
                    (\<lambda>s4. let s5 = clearItemsLayer s4;
                               s6 = (if showItemsCheckbox s5 then setStatus StHistoryHasNoItems s5 else s5)
                           in if asCurrent then s6\<lparr>historySelect := []\<rparr> else s6)))
              s3))"

text \<open>
  \<^verbatim>\<open>restoreHistoryAsCurrent()\<close>: the click on the restore button. The snapshot is read
  with a plain \<^verbatim>\<open>fetch\<close>, not through the cache.
\<close>

definition restoreHistoryAsCurrent :: "network \<Rightarrow> state \<Rightarrow> state" where
  "restoreHistoryAsCurrent net s =
     (if historySelect s = [] then setStatus StSelectHistoryFirst s
      else
        try_catch
          (\<lambda>s0. case fetch net (Get (ApiHistoryItem (historySelect s0))) (io s0) of
                   (Rejected msg, w) \<Rightarrow> (Some (Error msg), s0\<lparr>io := w\<rparr>)
                 | (Resolved resp, w) \<Rightarrow>
                     if \<not> ok resp then (Some (Error msg_history_read_failed), s0\<lparr>io := w\<rparr>)
                     else
                       (case body resp of
                          Inl msg \<Rightarrow> (Some (Error msg), s0\<lparr>io := w\<rparr>)
                        | Inr d \<Rightarrow>
                            and_then (applyHistoryData d True)
                              (done_step (\<lambda>s1. loadHistoryList net False (setStatus StRestored s1)))
                              (s0\<lparr>io := w\<rparr>)))
          (\<lambda>err. setStatus (StRestoreFailed (message err)))
          (setStatus StRestoring s))"

text \<open>\<^verbatim>\<open>loadHistoryById(saveId)\<close>: viewing a history version, read through the cache.\<close>

definition loadHistoryById :: "network \<Rightarrow> string \<Rightarrow> state \<Rightarrow> state" where
  "loadHistoryById net saveId s =
     (if saveId = [] then s
      else
        try_catch
          (\<lambda>s0. case fetchJson net (ApiHistoryItem saveId) HistoryItem (Name saveId) False s0 of
                   (Inl e, s1) \<Rightarrow> (Some e, s1)
                 | (Inr d, s1) \<Rightarrow> applyHistoryData d False s1)
          (\<lambda>err. setStatus (StHistoryLoadFailed (message err)))
          (clearAllLayers (disableAllEditing (setStatus StLoadingHistory s))))"

subsection \<open>Loading a file\<close>

text \<open>
  \<^verbatim>\<open>loadPointsForFile(file)\<close>. The inner \<^verbatim>\<open>try\<close> only guards the read: an error whose
  message contains \<^verbatim>\<open>404\<close> ends the load with a status text, any other is thrown again
  and lands in the outer \<^verbatim>\<open>catch\<close>, as does a throw of the filter or of the rendering.
\<close>

definition loadPointsForFile :: "network \<Rightarrow> string \<Rightarrow> state \<Rightarrow> state" where
  "loadPointsForFile net file s =
     (case fetchJson net (ApiPoints file) Points (Name file) False s of
        (Inl err, s1) \<Rightarrow>
          if message err \<noteq> [] \<and> js_includes (message err) ''404''
          then setStatus StPointsMissing s1
          else setStatus (StPointsLoadFailed (message err)) s1
      | (Inr geojson, s1) \<Rightarrow>
          try_catch
            (\<lambda>s2. case filterGeoJSONBySchool geojson (getSelectedSchool s2) of
                     Inl e \<Rightarrow> (Some e, s2)
                   | Inr r \<Rightarrow> renderPointsGeoJSON (returned_value geojson r) True s2)
            (\<lambda>err. setStatus (StPointsLoadFailed (message err)))
            (s1\<lparr>originalPointsGeoJSON := cloneGeoJSON geojson\<rparr>))"

definition loadItemsForFile :: "network \<Rightarrow> string \<Rightarrow> state \<Rightarrow> state" where
  "loadItemsForFile net file s =
     (case fetchJson net (ApiItems file) Items (Name file) False s of
        (Inl err, s1) \<Rightarrow>
          if message err \<noteq> [] \<and> js_includes (message err) ''404''
          then setStatus StItemsMissing s1
          else setStatus (StItemsLoadFailed (message err)) s1
      | (Inr geojson, s1) \<Rightarrow>
          try_catch
            (\<lambda>s2. case filterGeoJSONBySchool geojson (getSelectedSchool s2) of
                     Inl e \<Rightarrow> (Some e, s2)
                   | Inr r \<Rightarrow> renderItemsGeoJSON (returned_value geojson r) True s2)
            (\<lambda>err. setStatus (StItemsLoadFailed (message err)))
            (s1\<lparr>originalItemsGeoJSON := cloneGeoJSON geojson\<rparr>))"

text \<open>
  \<^verbatim>\<open>loadSelectedFile()\<close>: the handler of the file selector and of the reload button. Every
  \<^verbatim>\<open>await\<close> is run to its end before the next statement, as in the script.
\<close>

definition loadSelectedFile :: "network \<Rightarrow> state \<Rightarrow> state" where
  "loadSelectedFile net s =
     (if fileSelect s = [] then s
      else
        (let file = fileSelect s;
             s1 = s\<lparr>currentFileName := Some file, currentFileSource := Server\<rparr>;
             s2 = disableAllEditing s1;
             s3 = s2\<lparr>schoolSelect := [], historySelect := []\<rparr>;
             s4 = clearAllLayers (setStatus StLoading s3)
         in try_catch
              (\<lambda>s5. case fetchJson net (ApiPolygons file) Polygons (Name file) False s5 of
                       (Inl e, s6) \<Rightarrow> (Some e, s6)
                     | (Inr geojson, s6) \<Rightarrow>
                         and_then (setSchoolOptions geojson)
                           (and_then (renderGeoJSON geojson False)
                              (done_step
                                 (\<lambda>s7. let s8 = (if showPointsCheckbox s7 then loadPointsForFile net file s7 else s7);
                                            s9 = (if showItemsCheckbox s8 then loadItemsForFile net file s8 else s8)
                                        in loadHistoryList net False s9)))
                           s6)
              (\<lambda>err. setStatus (StLoadFailed (message err)))
              s4))"

text \<open>
  \<^verbatim>\<open>loadIndex(force = false)\<close>. Rebuilding the options of the file selector leaves it on
  its first option, the empty value.
\<close>

definition loadIndex :: "network \<Rightarrow> bool \<Rightarrow> state \<Rightarrow> state" where
  "loadIndex net force s =
     try_catch
       (\<lambda>s0. case fetchJson net ApiIndex Index (Name ''index'') force s0 of
                (Inl e, s1) \<Rightarrow> (Some e, s1)
              | (Inr files, s1) \<Rightarrow>
                  (case files of
                     JArr fs \<Rightarrow> (None, setStatus StIndexRefreshed (s1\<lparr>fileSelect := []\<rparr>))
                   | _ \<Rightarrow> (Some (Error ''files.forEach is not a function''), s1\<lparr>fileSelect := []\<rparr>)))
       (\<lambda>err. setStatus StIndexFailed)
       s"

subsection \<open>Saving a layer\<close>

text \<open>
  \<^verbatim>\<open>saveGeoJSON(kind, geojson)\<close>. The first guard sets the status text and returns: it
  does not throw.
\<close>

definition saveGeoJSON :: "network \<Rightarrow> string \<Rightarrow> json \<Rightarrow> step" where
  "saveGeoJSON net kind geojson s =
     (case currentFileName s of
        None \<Rightarrow> (None, setStatus StLocalPreviewOnly s)
      | Some file \<Rightarrow>
          if file = [] \<or> currentFileSource s \<noteq> Server then (None, setStatus StLocalPreviewOnly s)
          else
            (let endpoint = (if kind = ''points'' then ApiPoints file
                             else if kind = ''items'' then ApiItems file
                             else ApiPolygons file);
                 ck = (if kind = ''points'' then Points
                       else if kind = ''items'' then Items
                       else Polygons);
                 s1 = setStatus StSaving s
             in case fetch net (Post endpoint geojson) (io s1) of
                  (Rejected msg, w) \<Rightarrow> (Some (Error msg), s1\<lparr>io := w\<rparr>)
                | (Resolved resp, w) \<Rightarrow>
                    if \<not> ok resp then (Some (Error msg_save_failed), s1\<lparr>io := w\<rparr>)
                    else
                      (None,
                       setStatus StSaved
                         (store_cache ck
                            (cacheSet (clock w) (Some (responseCache s1 ck)) (Name file) geojson)
                            (s1\<lparr>io := w\<rparr>)))))"

text \<open>The click handlers of the two save buttons.\<close>

definition savePolygonBtn_click :: "network \<Rightarrow> state \<Rightarrow> state" where
  "savePolygonBtn_click net s =
     (if isSchoolFilterActive s then setStatus StSwitchToAllBeforeSave s
      else if no_overlays (currentPolygonLayer s) then setStatus StNoPolygonsToSave s
      else
        (let geojson = overlaysToGeoJSON (currentPolygonLayer s) ''Polygon''
         in try_catch
              (and_then (saveGeoJSON net ''polygons'' geojson)
                 (done_step (\<lambda>s1. s1\<lparr>originalPolygonGeoJSON := cloneGeoJSON geojson\<rparr>)))
              (\<lambda>err. setStatus (StSaveFailed (message err)))
              s))"

definition savePointsBtn_click :: "network \<Rightarrow> state \<Rightarrow> state" where
  "savePointsBtn_click net s =
     (if isSchoolFilterActive s then setStatus StSwitchToAllBeforeSave s
      else if no_overlays (currentPointsLayer s) then setStatus StNoPointsToSave s
      else
        (let geojson = overlaysToGeoJSON (currentPointsLayer s) ''Point''
         in try_catch
              (and_then (saveGeoJSON net ''points'' geojson)
                 (done_step (\<lambda>s1. s1\<lparr>originalPointsGeoJSON := cloneGeoJSON geojson\<rparr>)))
              (\<lambda>err. setStatus (StSaveFailed (message err)))
              s))"

subsection \<open>Edit sessions\<close>

fun isPolygon :: "overlay \<Rightarrow> bool" where
  "isPolygon (Polygon _ _) = True"
| "isPolygon _ = False"

text \<open>
  \<^verbatim>\<open>togglePolygonEditing()\<close>; the callback of \<^verbatim>\<open>AMap.plugin\<close> is run at once.
\<close>

definition togglePolygonEditing :: "state \<Rightarrow> state" where
  "togglePolygonEditing s =
     (case currentPolygonLayer s of
        None \<Rightarrow> setStatus StNoPolygonsToEdit s
      | Some overlays \<Rightarrow>
          if overlays = [] then setStatus StNoPolygonsToEdit s
          else if isSchoolFilterActive s then setStatus StSwitchToAllBeforeEdit s
          else if isPolygonEditing s then closePolygonEditors s
          else
            setStatus StPolygonEditOn
              ((closePolygonEditors s)\<lparr>polygonEditors := filter isPolygon overlays,
                                        isPolygonEditing := True\<rparr>))"

definition togglePointsEditing :: "state \<Rightarrow> state" where
  "togglePointsEditing s =
     (if no_overlays (currentPointsLayer s) then setStatus StNoPointsToEdit s
      else if isSchoolFilterActive s then setStatus StSwitchToAllBeforeEdit s
      else
        (let s1 = s\<lparr>isPointsEditing := \<not> isPointsEditing s\<rparr>;
             s2 = s1\<lparr>currentPointsLayer := setMarkersDraggable (currentPointsLayer s1) (isPointsEditing s1)\<rparr>
         in setStatus (if isPointsEditing s2 then StPointsEditOn else StPointsEditOff) s2))"

subsection \<open>Reset, layer visibility, local files\<close>


text \<open>
  The \<^verbatim>\<open>change\<close> handlers of the two visibility checkboxes; the argument is the new
  state of the box.
\<close>

definition showPointsCheckbox_change :: "network \<Rightarrow> bool \<Rightarrow> state \<Rightarrow> state" where
  "showPointsCheckbox_change net checked s =
     (let s1 = s\<lparr>showPointsCheckbox := checked\<rparr>
      in if checked
         then (if fileSelect s1 \<noteq> [] then loadPointsForFile net (fileSelect s1) s1 else s1)
         else clearPointsLayer s1)"


text \<open>The \<^verbatim>\<open>change\<close> handler of the file selector: the operator picks a file.\<close>

definition fileSelect_change :: "network \<Rightarrow> string \<Rightarrow> state \<Rightarrow> state" where
  "fileSelect_change net file s = loadSelectedFile net (s\<lparr>fileSelect := file\<rparr>)"

text \<open>
  The \<^verbatim>\<open>onload\<close> handler of the local file reader: the name of the file and what
  \<^verbatim>\<open>JSON.parse\<close> makes of its text (\<open>None\<close> when it throws).
\<close>

definition fileInput_loaded :: "string \<Rightarrow> json option \<Rightarrow> state \<Rightarrow> state" where
  "fileInput_loaded name parsed s =
     (case parsed of
        None \<Rightarrow> setStatus StLocalParseFailed s
      | Some geojson \<Rightarrow>
          try_catch
            (\<lambda>s0. let s1 = s0\<lparr>currentFileName := Some name, currentFileSource := Local\<rparr>;
                       s2 = disableAllEditing s1;
                       s3 = s2\<lparr>schoolSelect := []\<rparr>;
                       s4 = resetHistoryOptions (s3\<lparr>historySelect := []\<rparr>);
                       s5 = clearAllLayers s4
                   in and_then (setSchoolOptions geojson) (renderGeoJSON geojson False) s5)
            (\<lambda>err. setStatus StLocalParseFailed)
            s)"

text \<open>
  The \<^verbatim>\<open>change\<close> handler of the history selector: the operator picks a version, or the
  empty value (the current version).
\<close>

definition historySelect_change :: "network \<Rightarrow> string \<Rightarrow> state \<Rightarrow> state" where
  "historySelect_change net v s =
     (let s1 = disableAllEditing (s\<lparr>historySelect := v\<rparr>)
      in if historySelect s1 = [] then loadSelectedFile net (s1\<lparr>currentFileSource := Server\<rparr>)
         else loadHistoryById net (historySelect s1) s1)"


section \<open>Concrete inputs\<close>

text \<open>Caches, backends and collections on which the properties below are run.\<close>

definition cache_example :: "cache_key cache" where
  "cache_example =
     [Name ''a.geojson'' \<mapsto> \<lparr>ts = 0, data = JStr ''old''\<rparr>,
      Name ''b.geojson'' \<mapsto> \<lparr>ts = 0, data = JStr ''other''\<rparr>]"

text \<open>A backend that answers every request with status 500, and one that answers with a given body.\<close>

definition net_500 :: network where
  "net_500 n req = (10, Resolved \<lparr>status = 500, body = Inl ''Unexpected token''\<rparr>)"

definition net_ok :: "json \<Rightarrow> network" where
  "net_ok d n req = (10, Resolved \<lparr>status = 200, body = Inr d\<rparr>)"

definition world0 :: world where
  "world0 = \<lparr>requests = [], clock = 7\<rparr>"


definition triangle :: "real \<Rightarrow> json" where
  "triangle x = JArr [JArr [JArr [JNum x, JNum x], JArr [JNum (x + 1), JNum x], JArr [JNum (x + 1), JNum (x + 1)]]]"

text \<open>A feature of school \<^verbatim>\<open>north\<close> whose geometry is a MultiPolygon of two triangles.\<close>

definition two_triangles :: json where
  "two_triangles =
     JObj [(''type'', JStr ''Feature''),
           (''geometry'', JObj [(''type'', JStr ''MultiPolygon''),
                                (''coordinates'', JArr [triangle 0, triangle 5])]),
           (''properties'', JObj [(''school_name'', JStr ''north'')])]"

text \<open>A feature of school \<^verbatim>\<open>south\<close> with one triangle, and a collection of both.\<close>

definition one_triangle :: json where
  "one_triangle =
     JObj [(''type'', JStr ''Feature''),
           (''geometry'', JObj [(''type'', JStr ''Polygon''), (''coordinates'', triangle 2)]),
           (''properties'', JObj [(''school_name'', JStr ''south'')])]"

definition district_file :: json where
  "district_file = FeatureCollection [two_triangles, one_triangle]"

text \<open>
  A local file has been opened: the district file, read from disk under the name
  \<^verbatim>\<open>draft.geojson\<close>, in a fresh session.
\<close>

definition local_session :: state where
  "local_session = fileInput_loaded ''draft.geojson'' (Some district_file) (initial_state 0)"

text \<open>
  The same session after the operator has switched polygon editing on and dragged the
  first vertex of the third polygon from (2, 2) to (2.5, 2).
\<close>

definition dragged_polygon :: overlay where
  "dragged_polygon = Polygon (Rings [[LngLat 2.5 2, LngLat 3 2, LngLat 3 3]]) (JObj [(''school_name'', JStr ''south'')])"

definition local_session_edited :: state where
  "local_session_edited =
     (let s = togglePolygonEditing local_session
      in s\<lparr>currentPolygonLayer := map_option (\<lambda>os. os[2 := dragged_polygon]) (currentPolygonLayer s),
            polygonEditors := (polygonEditors s)[2 := dragged_polygon]\<rparr>)"

text \<open>A points file with two boundary points of school \<^verbatim>\<open>north\<close>.\<close>

definition point_feature :: "real \<Rightarrow> real \<Rightarrow> json" where
  "point_feature x y =
     JObj [(''type'', JStr ''Feature''),
           (''geometry'', JObj [(''type'', JStr ''Point''), (''coordinates'', JArr [JNum x, JNum y])]),
           (''properties'', JObj [(''school_name'', JStr ''north''), (''kind'', JStr ''boundary'')])]"

definition points_file :: json where
  "points_file = FeatureCollection [point_feature 0 0, point_feature 1 1]"

text \<open>The snapshot of the one saved version, \<^verbatim>\<open>v1\<close>, of the file \<^verbatim>\<open>a.geojson\<close>.\<close>

definition history_snapshot :: json where
  "history_snapshot =
     JObj [(''file_name'', JStr ''a.geojson''), (''school_name'', JStr []),
           (''polygons'', district_file), (''points'', points_file)]"

definition history_list :: json where
  "history_list = JArr [JObj [(''save_id'', JStr ''v1''), (''file_name'', JStr ''a.geojson'')]]"

text \<open>
  A backend that has the one file \<^verbatim>\<open>a.geojson\<close> with its points, no items, and one saved
  version; it answers the n-th request at clock 1000 * (n + 1).
\<close>

definition backend :: network where
  "backend n req =
     (1000 * (int n + 1),
      Resolved
        (case req of
           Get ApiIndex \<Rightarrow> \<lparr>status = 200, body = Inr (JArr [JStr ''a.geojson''])\<rparr>
         | Get (ApiPolygons f) \<Rightarrow> \<lparr>status = 200, body = Inr district_file\<rparr>
         | Get (ApiPoints f) \<Rightarrow> \<lparr>status = 200, body = Inr points_file\<rparr>
         | Get (ApiHistoryList f sch) \<Rightarrow> \<lparr>status = 200, body = Inr history_list\<rparr>
         | Get (ApiHistoryItem v) \<Rightarrow> \<lparr>status = 200, body = Inr history_snapshot\<rparr>
         | Post e d \<Rightarrow> \<lparr>status = 200, body = Inr (JObj [])\<rparr>
         | _ \<Rightarrow> \<lparr>status = 404, body = Inr (JObj [(''detail'', JStr ''Not Found'')])\<rparr>))"

text \<open>
  A session from the start of the script: \<^verbatim>\<open>initMap\<close> loads the file list, the operator
  ticks \<^verbatim>\<open>show points\<close>, picks \<^verbatim>\<open>a.geojson\<close> and switches point editing on.
\<close>

definition editing_points :: state where
  "editing_points =
     togglePointsEditing
       (fileSelect_change backend ''a.geojson''
          (showPointsCheckbox_change backend True
             (loadIndex backend False (initial_state 0))))"


text \<open>
  A session in which the operator has loaded \<^verbatim>\<open>a.geojson\<close> and picked the saved version
  \<^verbatim>\<open>v1\<close> in the history selector, and is now looking at that version.
\<close>

definition viewing_history :: state where
  "viewing_history =
     historySelect_change backend ''v1''
       (fileSelect_change backend ''a.geojson'' (loadIndex backend False (initial_state 0)))"



text \<open>A file with the one triangle of school \<^verbatim>\<open>south\<close>, and an items file with the triangle at (7, 7).\<close>

definition plain_file :: json where
  "plain_file = FeatureCollection [one_triangle]"

definition items_file :: json where
  "items_file = FeatureCollection [Feature ''Polygon'' (triangle 7) (JObj [(''school_name'', JStr ''south'')])]"



section \<open>ResponseCache: reads, writes and forced reads\<close>

text \<open>
  C10. \<^verbatim>\<open>cacheGet\<close> is a mutating read. When the entry of the requested key is older than
  the TTL it deletes the entry and returns absent; on a fresh hit it returns the data and
  on a miss absent, the map staying as it was; whatever the case, the entries of all other
  keys are the same after the read as before. (With no map at all it returns absent.)
\<close>

theorem cacheGet_mutating_read:
  "(\<forall>e. m key = Some e \<and> now_ms - ts e > CACHE_TTL_MS \<longrightarrow>
        cacheGet now_ms (Some m) key = (JNull, Some (m(key := None))) \<and> key \<notin> dom (m(key := None)))
   \<and> (\<forall>e. m key = Some e \<and> now_ms - ts e \<le> CACHE_TTL_MS \<longrightarrow>
        cacheGet now_ms (Some m) key = (data e, Some m))
   \<and> (m key = None \<longrightarrow> cacheGet now_ms (Some m) key = (JNull, Some m))
   \<and> (\<exists>m'. snd (cacheGet now_ms (Some m) key) = Some m' \<and> (\<forall>k. k \<noteq> key \<longrightarrow> m' k = m k))
   \<and> cacheGet now_ms None key = (JNull, None)"
  by (auto simp: cacheGet_def split: option.splits)

text \<open>
  The entry of \<^verbatim>\<open>a.geojson\<close>, written at time 0, read one millisecond after the TTL (deleted,
  the entry of \<^verbatim>\<open>b.geojson\<close> untouched), read at the TTL exactly (a hit), and a miss.
\<close>

theorem cacheGet_mutating_read_witness:
  "cache_example (Name ''a.geojson'') = Some \<lparr>ts = 0, data = JStr ''old''\<rparr>
   \<and> 300001 - ts \<lparr>ts = 0, data = JStr ''old''\<rparr> > CACHE_TTL_MS
   \<and> cacheGet 300001 (Some cache_example) (Name ''a.geojson'')
        = (JNull, Some (cache_example(Name ''a.geojson'' := None)))
   \<and> (cache_example(Name ''a.geojson'' := None)) (Name ''b.geojson'') = Some \<lparr>ts = 0, data = JStr ''other''\<rparr>
   \<and> cacheGet 300000 (Some cache_example) (Name ''a.geojson'') = (JStr ''old'', Some cache_example)
   \<and> cache_example (Name ''c.geojson'') = None
   \<and> cacheGet 300001 (Some cache_example) (Name ''c.geojson'') = (JNull, Some cache_example)"
  using cacheGet_mutating_read [of cache_example "Name ''a.geojson''" 300001]
        cacheGet_mutating_read [of cache_example "Name ''a.geojson''" 300000]
        cacheGet_mutating_read [of cache_example "Name ''c.geojson''" 300001]
  by (simp add: cache_example_def CACHE_TTL_MS_def)

text \<open>
  Against C4 as stated: a forced read that the backend answers with status 500 performs the
  network read and throws; the entry of the key is the old one, not overwritten.
\<close>

theorem forced_read_failure_counterexample:
  "fetchJsonWithCache net_500 (ApiPolygons ''a.geojson'') (Some cache_example) (Name ''a.geojson'') True world0
     = (Inl (Error (msg_request_failed 500)), Some cache_example,
        \<lparr>requests = [Get (ApiPolygons ''a.geojson'')], clock = 10\<rparr>)"
  by (simp add: fetchJsonWithCache_def fetch_def net_500_def world0_def ok_def)

text \<open>
  C4, amended. For every key: a get after a set returns the stored value while the entry
  is at most 5 minutes old, and absent once it is older. A forced read performs the
  network read whatever the cache holds, old or fresh: the request is issued. When the
  response is a success with a JSON body, the entry is overwritten with that body and the
  time of the answer; when the read fails, the call throws and the cache is as before.
\<close>

theorem cache_ttl_and_force:
  "(now' - now_ms \<le> CACHE_TTL_MS \<longrightarrow>
      fst (cacheGet now' (cacheSet now_ms (Some m) key d) key) = d)
   \<and> (now' - now_ms > CACHE_TTL_MS \<longrightarrow>
      fst (cacheGet now' (cacheSet now_ms (Some m) key d) key) = JNull)
   \<and> requests (snd (snd (fetchJsonWithCache net url (Some m) key True w))) = requests w @ [Get url]
   \<and> (\<forall>t resp v. net (length (requests w)) (Get url) = (t, Resolved resp) \<and> ok resp \<and> body resp = Inr v \<longrightarrow>
        fetchJsonWithCache net url (Some m) key True w
          = (Inr v, Some (m(key \<mapsto> \<lparr>ts = t, data = v\<rparr>)), \<lparr>requests = requests w @ [Get url], clock = t\<rparr>))
   \<and> ((\<exists>e. fst (fetchJsonWithCache net url (Some m) key True w) = Inl e) \<longrightarrow>
        fst (snd (fetchJsonWithCache net url (Some m) key True w)) = Some m)"
  by (auto simp: cacheGet_def cacheSet_def fetchJsonWithCache_def fetch_def
           split: prod.splits fetch_result.splits sum.splits)

theorem cache_ttl_and_force_witness:
  "fst (cacheGet 300000 (cacheSet 0 (Some cache_example) (Name ''a.geojson'') (JStr ''new'')) (Name ''a.geojson'')) = JStr ''new''
   \<and> fst (cacheGet 300001 (cacheSet 0 (Some cache_example) (Name ''a.geojson'') (JStr ''new'')) (Name ''a.geojson'')) = JNull
   \<and> net_ok (JStr ''new'') (length (requests world0)) (Get (ApiPolygons ''a.geojson''))
        = (10, Resolved \<lparr>status = 200, body = Inr (JStr ''new'')\<rparr>)
   \<and> ok \<lparr>status = 200, body = Inr (JStr ''new'')\<rparr>
   \<and> fetchJsonWithCache (net_ok (JStr ''new'')) (ApiPolygons ''a.geojson'') (Some cache_example) (Name ''a.geojson'') True world0
       = (Inr (JStr ''new''), Some (cache_example(Name ''a.geojson'' \<mapsto> \<lparr>ts = 10, data = JStr ''new''\<rparr>)),
          \<lparr>requests = [Get (ApiPolygons ''a.geojson'')], clock = 10\<rparr>)
   \<and> fst (fetchJsonWithCache net_500 (ApiPolygons ''a.geojson'') (Some cache_example) (Name ''a.geojson'') True world0)
       = Inl (Error (msg_request_failed 500))
   \<and> fst (snd (fetchJsonWithCache net_500 (ApiPolygons ''a.geojson'') (Some cache_example) (Name ''a.geojson'') True world0))
       = Some cache_example"
  using cache_ttl_and_force [of 300000 0 cache_example "Name ''a.geojson''" "JStr ''new''" "net_ok (JStr ''new'')" "ApiPolygons ''a.geojson''" world0]
        cache_ttl_and_force [of 300001 0 cache_example "Name ''a.geojson''" "JStr ''new''" net_500 "ApiPolygons ''a.geojson''" world0]
  by (simp add: CACHE_TTL_MS_def net_ok_def net_500_def world0_def ok_def fetchJsonWithCache_def fetch_def)

section \<open>The school filter\<close>

lemma field_FeatureCollection [simp]:
  "field (FeatureCollection fs) ''type'' = Some (JStr ''FeatureCollection'')"
  "field (FeatureCollection fs) ''features'' = Some (JArr fs)"
  "truthy (FeatureCollection fs)"
  by (simp_all add: FeatureCollection_def)

lemma FeatureCollection_inject [simp]:
  "FeatureCollection a = FeatureCollection b \<longleftrightarrow> a = b"
  by (simp add: FeatureCollection_def)







section \<open>Reading overlays back\<close>

lemma collect_length: "collect rs = Inr xs \<Longrightarrow> length xs = length rs"
proof (induction rs arbitrary: xs)
  case Nil
  then show ?case by simp
next
  case (Cons r rs)
  then show ?case by (cases r) (auto split: sum.splits)
qed

lemma collect_members: "collect rs = Inr xs \<Longrightarrow> x \<in> set xs \<Longrightarrow> Inr x \<in> set rs"
proof (induction rs arbitrary: xs)
  case Nil
  then show ?case by simp
next
  case (Cons r rs)
  then show ?case by (cases r) (auto split: sum.splits)
qed

lemma new_Polygon_isPolygon: "new_Polygon c p = Inr ov \<Longrightarrow> isPolygon ov"
  by (auto simp: new_Polygon_def split: option.splits)

lemma overlay_features_type:
  "f \<in> set (overlay_features gt ov) \<Longrightarrow> geometry_type f = Some (JStr gt)"
  by (cases ov) (auto simp: geometry_type_def Feature_def split: if_splits)

lemma overlay_features_polygon:
  "isPolygon ov \<Longrightarrow> length (overlay_features ''Polygon'' ov) = 1"
  by (cases ov) auto

lemma concat_singletons:
  "\<forall>x \<in> set xs. length (f x) = 1 \<Longrightarrow> length (concat (map f xs)) = length xs"
  by (induction xs) auto

text \<open>
  C9. \<^verbatim>\<open>overlaysToGeoJSON(overlays, geometryType)\<close> always returns a FeatureCollection (the
  model is a total function), and every feature in it has the requested geometry type. A
  \<^verbatim>\<open>null\<close> overlay list gives the empty collection. Each overlay contributes its own
  features in order, and one whose class does not match the requested type (a marker for
  \<^verbatim>\<open>Point\<close>, a polygon for \<^verbatim>\<open>Polygon\<close>, a polyline for \<^verbatim>\<open>LineString\<close>) contributes none. So a
  MultiPolygon feature, rendered as one polygon overlay per element, reads back as that
  many separate features of type \<^verbatim>\<open>Polygon\<close>.
\<close>

theorem overlaysToGeoJSON_contract:
  "(\<exists>fs. overlaysToGeoJSON overlays geometryType = FeatureCollection fs
         \<and> (\<forall>f \<in> set fs. geometry_type f = Some (JStr geometryType)))
   \<and> overlaysToGeoJSON None geometryType = FeatureCollection []
   \<and> overlaysToGeoJSON (Some (before @ ov # after)) geometryType
        = FeatureCollection
            (concat (map (overlay_features geometryType) before)
             @ overlay_features geometryType ov
             @ concat (map (overlay_features geometryType) after))
   \<and> (\<not> (geometryType = ''Point'' \<and> isMarker ov \<or> geometryType = ''Polygon'' \<and> isPolygon ov
           \<or> geometryType = ''LineString'' \<and> isPolyline ov) \<longrightarrow>
        overlay_features geometryType ov = [])
   \<and> (\<forall>geometry polys os.
         field feature ''geometry'' = Some geometry \<and> truthy geometry
         \<and> field geometry ''type'' = Some (JStr ''MultiPolygon'')
         \<and> field geometry ''coordinates'' = Some (JArr polys)
         \<and> createOverlaysFromFeature feature = Inr os \<longrightarrow>
         length os = length polys \<and> (\<forall>o' \<in> set os. isPolygon o')
         \<and> (\<exists>fs. overlaysToGeoJSON (Some os) ''Polygon'' = FeatureCollection fs
                \<and> length fs = length polys
                \<and> (\<forall>f \<in> set fs. geometry_type f = Some (JStr ''Polygon''))))"
proof (intro conjI)
  show "\<exists>fs. overlaysToGeoJSON overlays geometryType = FeatureCollection fs
         \<and> (\<forall>f \<in> set fs. geometry_type f = Some (JStr geometryType))"
  proof (cases overlays)
    case None
    then show ?thesis by (simp add: overlaysToGeoJSON_def)
  next
    case (Some os)
    have "\<forall>f \<in> set (concat (map (overlay_features geometryType) os)).
            geometry_type f = Some (JStr geometryType)"
      by (auto dest: overlay_features_type)
    with Some show ?thesis by (simp add: overlaysToGeoJSON_def)
  qed
next
  show "overlaysToGeoJSON None geometryType = FeatureCollection []"
    by (simp add: overlaysToGeoJSON_def)
next
  show "overlaysToGeoJSON (Some (before @ ov # after)) geometryType
        = FeatureCollection
            (concat (map (overlay_features geometryType) before)
             @ overlay_features geometryType ov
             @ concat (map (overlay_features geometryType) after))"
    by (simp add: overlaysToGeoJSON_def)
next
  show "\<not> (geometryType = ''Point'' \<and> isMarker ov \<or> geometryType = ''Polygon'' \<and> isPolygon ov
           \<or> geometryType = ''LineString'' \<and> isPolyline ov) \<longrightarrow>
        overlay_features geometryType ov = []"
    by (cases ov) auto
next
  show "\<forall>geometry polys os.
         field feature ''geometry'' = Some geometry \<and> truthy geometry
         \<and> field geometry ''type'' = Some (JStr ''MultiPolygon'')
         \<and> field geometry ''coordinates'' = Some (JArr polys)
         \<and> createOverlaysFromFeature feature = Inr os \<longrightarrow>
         length os = length polys \<and> (\<forall>o' \<in> set os. isPolygon o')
         \<and> (\<exists>fs. overlaysToGeoJSON (Some os) ''Polygon'' = FeatureCollection fs
                \<and> length fs = length polys
                \<and> (\<forall>f \<in> set fs. geometry_type f = Some (JStr ''Polygon'')))"
  proof (intro allI impI, elim conjE)
    fix geometry polys os
    assume g: "field feature ''geometry'' = Some geometry" "truthy geometry"
      "field geometry ''type'' = Some (JStr ''MultiPolygon'')"
      "field geometry ''coordinates'' = Some (JArr polys)"
      and c: "createOverlaysFromFeature feature = Inr os"
    define props where "props = or_empty_object (field feature ''properties'')"
    from g c have col: "collect (map (\<lambda>poly. new_Polygon (Some poly) props) polys) = Inr os"
      by (simp add: createOverlaysFromFeature_def props_def)
    from collect_length [OF col] have len: "length os = length polys" by simp
    have pol: "\<forall>o' \<in> set os. isPolygon o'"
    proof
      fix o'
      assume "o' \<in> set os"
      from collect_members [OF col this] show "isPolygon o'"
        by (auto dest: new_Polygon_isPolygon [OF sym])
    qed
    have "length (concat (map (overlay_features ''Polygon'') os)) = length os"
      using pol by (intro concat_singletons) (simp add: overlay_features_polygon)
    moreover have "\<forall>f \<in> set (concat (map (overlay_features ''Polygon'') os)).
                     geometry_type f = Some (JStr ''Polygon'')"
      by (auto dest: overlay_features_type)
    ultimately show "length os = length polys \<and> (\<forall>o' \<in> set os. isPolygon o')
         \<and> (\<exists>fs. overlaysToGeoJSON (Some os) ''Polygon'' = FeatureCollection fs
                \<and> length fs = length polys
                \<and> (\<forall>f \<in> set fs. geometry_type f = Some (JStr ''Polygon'')))"
      using len pol by (simp add: overlaysToGeoJSON_def)
  qed
qed

text \<open>
  The MultiPolygon of two triangles renders as two polygon overlays and reads back as two
  features of type \<^verbatim>\<open>Polygon\<close>; a marker in front of a polygon is left out of a read of
  polygons, and the polygon out of a read of points.
\<close>

theorem overlaysToGeoJSON_contract_witness:
  "field two_triangles ''geometry''
     = Some (JObj [(''type'', JStr ''MultiPolygon''), (''coordinates'', JArr [triangle 0, triangle 5])])
   \<and> createOverlaysFromFeature two_triangles
     = Inr [Polygon (Rings [[LngLat 0 0, LngLat 1 0, LngLat 1 1]]) (JObj [(''school_name'', JStr ''north'')]),
            Polygon (Rings [[LngLat 5 5, LngLat 6 5, LngLat 6 6]]) (JObj [(''school_name'', JStr ''north'')])]
   \<and> overlaysToGeoJSON
        (Some [Polygon (Rings [[LngLat 0 0, LngLat 1 0, LngLat 1 1]]) (JObj [(''school_name'', JStr ''north'')]),
               Polygon (Rings [[LngLat 5 5, LngLat 6 5, LngLat 6 6]]) (JObj [(''school_name'', JStr ''north'')])])
        ''Polygon''
     = FeatureCollection
         [Feature ''Polygon'' (triangle 0) (JObj [(''school_name'', JStr ''north'')]),
          Feature ''Polygon'' (triangle 5) (JObj [(''school_name'', JStr ''north'')])]
   \<and> \<not> isPolygon (Marker (LngLat 1 2) JNull False)
   \<and> overlaysToGeoJSON
        (Some ([] @ Marker (LngLat 1 2) JNull False # [Polygon (Ring [LngLat 0 0, LngLat 1 0, LngLat 1 1]) JNull]))
        ''Polygon''
     = FeatureCollection [Feature ''Polygon'' (triangle 0) (JObj [])]
   \<and> overlay_features ''Point'' (Polygon (Ring [LngLat 0 0, LngLat 1 0, LngLat 1 1]) JNull) = []"
  using overlaysToGeoJSON_contract
          [of "Some [Polygon (Rings [[LngLat 0 0, LngLat 1 0, LngLat 1 1]]) (JObj [(''school_name'', JStr ''north'')]),
                     Polygon (Rings [[LngLat 5 5, LngLat 6 5, LngLat 6 6]]) (JObj [(''school_name'', JStr ''north'')])]"
              "''Polygon''" "[]" "Marker (LngLat 1 2) JNull False"
              "[Polygon (Ring [LngLat 0 0, LngLat 1 0, LngLat 1 1]) JNull]" two_triangles]
        overlaysToGeoJSON_contract
          [of None "''Point''" "[]" "Polygon (Ring [LngLat 0 0, LngLat 1 0, LngLat 1 1]) JNull" "[]" two_triangles]
  by (simp add: two_triangles_def triangle_def createOverlaysFromFeature_def or_empty_object_def
        new_Polygon_def overlaysToGeoJSON_def toLngLatArray_def Let_def)

section \<open>Status codes in error messages\<close>

lemma digit_cases:
  "a < 10 \<Longrightarrow> a = 0 \<or> a = 1 \<or> a = 2 \<or> a = 3 \<or> a = 4 \<or> a = 5 \<or> a = 6 \<or> a = 7 \<or> a = 8 \<or> a = (9::nat)"
  by arith

lemma digit_is_4: "a < 10 \<Longrightarrow> (digit_char a = CHR ''4'') = (a = 4)"
  using digit_cases [of a] by (auto simp: digit_char_def)

lemma digit_is_0: "a < 10 \<Longrightarrow> (digit_char a = CHR ''0'') = (a = 0)"
  using digit_cases [of a] by (auto simp: digit_char_def)

lemma show_nat_small:
  assumes "n < 1000"
  shows "show_nat n =
     (if n < 10 then [digit_char n]
      else if n < 100 then [digit_char (n div 10), digit_char (n mod 10)]
      else [digit_char (n div 100), digit_char (n div 10 mod 10), digit_char (n mod 10)])"
proof -
  consider "n < 10" | "10 \<le> n" "n < 100" | "100 \<le> n" by linarith
  then show ?thesis
  proof cases
    case 1
    then show ?thesis by (simp add: show_nat.simps [of n])
  next
    case 2
    then have "n div 10 < 10" by simp
    with 2 show ?thesis by (simp add: show_nat.simps [of n] show_nat.simps [of "n div 10"])
  next
    case 3
    then have a: "\<not> n div 10 < 10" by simp
    from assms have b: "n div 10 div 10 < 10" by simp
    have c: "n div 10 div 10 = n div 100" by (simp add: div_mult2_eq [symmetric])
    from 3 a b c show ?thesis
      by (simp add: show_nat.simps [of n] show_nat.simps [of "n div 10"] show_nat.simps [of "n div 100"])
  qed
qed

lemma digits_404:
  fixes n :: nat
  shows "(n div 100 = 4 \<and> n div 10 mod 10 = 0 \<and> n mod 10 = 4) = (n = 404)"
proof
  assume a: "n div 100 = 4 \<and> n div 10 mod 10 = 0 \<and> n mod 10 = 4"
  have "n div 10 div 10 = n div 100" by (simp add: div_mult2_eq [symmetric])
  with a have "n div 10 = 10 * 4 + 0"
    using mult_div_mod_eq [of 10 "n div 10"] by simp
  with a show "n = 404"
    using mult_div_mod_eq [of 10 n] by simp
next
  assume "n = 404"
  then show "n div 100 = 4 \<and> n div 10 mod 10 = 0 \<and> n mod 10 = 4" by simp
qed

lemma includes_404_digits:
  assumes "n < 1000"
  shows "js_includes (show_nat n) ''404'' = (n = 404)"
proof -
  consider "n < 10" | "10 \<le> n" "n < 100" | "100 \<le> n" by linarith
  then show ?thesis
  proof cases
    case 1
    then show ?thesis by (simp add: show_nat_small [OF assms])
  next
    case 2
    then show ?thesis by (simp add: show_nat_small [OF assms])
  next
    case 3
    have d: "n div 100 < 10" "n div 10 mod 10 < 10" "n mod 10 < 10" using assms by simp_all
    from 3 have "js_includes (show_nat n) ''404''
        = (digit_char (n div 100) = CHR ''4'' \<and> digit_char (n div 10 mod 10) = CHR ''0''
           \<and> digit_char (n mod 10) = CHR ''4'')"
      by (simp add: show_nat_small [OF assms])
    also have "\<dots> = (n div 100 = 4 \<and> n div 10 mod 10 = 0 \<and> n mod 10 = 4)"
      by (simp only: digit_is_4 [OF d(1)] digit_is_0 [OF d(2)] digit_is_4 [OF d(3)])
    also have "\<dots> = (n = 404)" by (rule digits_404)
    finally show ?thesis .
  qed
qed

lemma includes_404:
  "n < 1000 \<Longrightarrow> js_includes (msg_request_failed n) ''404'' = (n = 404)"
  by (simp add: msg_request_failed_def includes_404_digits)

lemma msg_request_failed_nonempty: "msg_request_failed n \<noteq> []"
  by (simp add: msg_request_failed_def)

section \<open>Running the concrete sessions\<close>

lemmas step_defs = try_catch_def and_then_def done_step_def setStatus_def Let_def
  clearPolygonLayer_def clearPointsLayer_def clearItemsLayer_def clearAllLayers_def
  closePolygonEditors_def disableAllEditing_def setMarkersDraggable_def
  resetHistoryOptions_def setHistoryOptions_def cloneGeoJSON_def
  isSchoolFilterActive_def getSelectedSchool_def no_overlays_def

lemmas fetch_defs = fetchJson_def fetchJsonWithCache_def fetch_def cacheGet_def cacheSet_def
  store_cache_def ok_def

lemmas geo_defs = createOverlaysFromGeoJSON_def createOverlaysFromFeature_def or_empty_object_def
  new_Polygon_def new_Marker_def new_Polyline_def Let_def

lemmas example_defs = district_file_def two_triangles_def one_triangle_def triangle_def
  points_file_def point_feature_def history_snapshot_def history_list_def

lemma overlays_district_file:
  "createOverlaysFromGeoJSON district_file =
     Inr [Polygon (Rings [[LngLat 0 0, LngLat 1 0, LngLat 1 1]]) (JObj [(''school_name'', JStr ''north'')]),
          Polygon (Rings [[LngLat 5 5, LngLat 6 5, LngLat 6 6]]) (JObj [(''school_name'', JStr ''north'')]),
          Polygon (Rings [[LngLat 2 2, LngLat 3 2, LngLat 3 3]]) (JObj [(''school_name'', JStr ''south'')])]"
  by (simp add: geo_defs example_defs FeatureCollection_def)

lemma overlays_points_file:
  "createOverlaysFromGeoJSON points_file =
     Inr [Marker (LngLat 0 0) (JObj [(''school_name'', JStr ''north''), (''kind'', JStr ''boundary'')]) False,
          Marker (LngLat 1 1) (JObj [(''school_name'', JStr ''north''), (''kind'', JStr ''boundary'')]) False]"
  by (simp add: geo_defs example_defs FeatureCollection_def)

lemma school_options_district_file:
  "setSchoolOptions district_file s
     = (None, s\<lparr>schoolOptions := [''north'', ''south''], schoolSelect := []\<rparr>)"
  by (simp add: setSchoolOptions_def example_defs FeatureCollection_def List.map_filter_def
        school_name_of_def)

lemma truthy_examples [simp]: "truthy district_file" "truthy points_file"
  by (simp_all add: district_file_def points_file_def)

lemma filter_without_school [simp]: "filterGeoJSONBySchool g [] = Inr Same"
  by (simp add: filterGeoJSONBySchool_def)

lemma editing_points_facts:
  "isPointsEditing editing_points \<and> currentFileSource editing_points = Server
   \<and> schoolSelect editing_points = []
   \<and> responseCache editing_points Items = Map.empty
   \<and> currentItemsLayer editing_points = None
   \<and> clock (io editing_points) = 4000
   \<and> currentPointsLayer editing_points = Some
        [Marker (LngLat 0 0) (JObj [(''school_name'', JStr ''north''), (''kind'', JStr ''boundary'')]) True,
         Marker (LngLat 1 1) (JObj [(''school_name'', JStr ''north''), (''kind'', JStr ''boundary'')]) True]
   \<and> requests (io editing_points)
        = [Get ApiIndex, Get (ApiPolygons ''a.geojson''), Get (ApiPoints ''a.geojson''),
           Get (ApiHistoryList ''a.geojson'' [])]"
  by (simp add: editing_points_def togglePointsEditing_def fileSelect_change_def loadSelectedFile_def
        showPointsCheckbox_change_def loadIndex_def loadPointsForFile_def loadItemsForFile_def
        loadHistoryList_def renderGeoJSON_def renderPointsGeoJSON_def
        step_defs fetch_defs backend_def initial_state_def returned_value_def
        overlays_district_file overlays_points_file school_options_district_file history_list_def)

lemma local_session_eq:
  "local_session =
     (initial_state 0)\<lparr>currentFileName := Some ''draft.geojson'', currentFileSource := Local,
        schoolOptions := [''north'', ''south''],
        currentPolygonLayer := Some
          [Polygon (Rings [[LngLat 0 0, LngLat 1 0, LngLat 1 1]]) (JObj [(''school_name'', JStr ''north'')]),
           Polygon (Rings [[LngLat 5 5, LngLat 6 5, LngLat 6 6]]) (JObj [(''school_name'', JStr ''north'')]),
           Polygon (Rings [[LngLat 2 2, LngLat 3 2, LngLat 3 3]]) (JObj [(''school_name'', JStr ''south'')])],
        originalPolygonGeoJSON := district_file,
        statusEl := StLoaded\<rparr>"
  by (simp add: local_session_def fileInput_loaded_def step_defs renderGeoJSON_def
        overlays_district_file school_options_district_file initial_state_def)

section \<open>Saving a layer: the guards\<close>

lemma saveGeoJSON_not_server:
  "currentFileSource s \<noteq> Server \<Longrightarrow>
   saveGeoJSON net kind g s = (None, setStatus StLocalPreviewOnly s)"
  by (simp add: saveGeoJSON_def split: option.splits)

text \<open>
  What the click on \<^verbatim>\<open>save polygons\<close> does when the guard of \<^verbatim>\<open>saveGeoJSON\<close> turns the save
  down: the guard returns without throwing, so the handler goes on and stores the read-back
  of the live overlays as the original snapshot.
\<close>

lemma rejected_save_sets_snapshot:
  "currentFileSource s \<noteq> Server \<Longrightarrow> \<not> isSchoolFilterActive s \<Longrightarrow>
   \<not> no_overlays (currentPolygonLayer s) \<Longrightarrow>
   savePolygonBtn_click net s
     = (setStatus StLocalPreviewOnly s)
         \<lparr>originalPolygonGeoJSON := overlaysToGeoJSON (currentPolygonLayer s) ''Polygon''\<rparr>"
  by (simp add: savePolygonBtn_click_def saveGeoJSON_not_server try_catch_def and_then_def
        done_step_def Let_def cloneGeoJSON_def overlaysToGeoJSON_def split: option.splits)

text \<open>A save turned down by the school filter, and one that the backend refuses, leave the snapshots alone.\<close>

lemma filtered_save_keeps_snapshot:
  "isSchoolFilterActive s \<Longrightarrow>
   originalPolygonGeoJSON (savePolygonBtn_click net s) = originalPolygonGeoJSON s
   \<and> originalPointsGeoJSON (savePointsBtn_click net s) = originalPointsGeoJSON s"
  by (simp add: savePolygonBtn_click_def savePointsBtn_click_def setStatus_def)

lemma failed_save_keeps_snapshot:
  "currentFileSource s = Server \<Longrightarrow> currentFileName s = Some file \<Longrightarrow> file \<noteq> [] \<Longrightarrow>
   net (length (requests (io s))) (Post (ApiPolygons file) (overlaysToGeoJSON (currentPolygonLayer s) ''Polygon''))
     = (t, Resolved resp) \<Longrightarrow> \<not> ok resp \<Longrightarrow>
   originalPolygonGeoJSON (savePolygonBtn_click net s) = originalPolygonGeoJSON s"
  by (simp add: savePolygonBtn_click_def saveGeoJSON_def fetch_def try_catch_def and_then_def
        done_step_def setStatus_def Let_def)

text \<open>
  C1. The claim holds for a save that the school filter turns down and for one that the
  backend refuses, but not for one that the file-context guard turns down. In the session
  below a local file is open (the source is \<^verbatim>\<open>local\<close>), no filter is set, and the operator
  has dragged a vertex. The click on \<^verbatim>\<open>save polygons\<close> issues no request and shows the
  text \<^verbatim>\<open>local files are preview only\<close>, and yet the original snapshot of the polygon layer,
  which was the file as opened, is now the read-back of the edited overlays.
\<close>

theorem rejected_save_overwrites_snapshot:
  "currentFileSource local_session_edited = Local
   \<and> \<not> isSchoolFilterActive local_session_edited
   \<and> originalPolygonGeoJSON local_session_edited = district_file
   \<and> requests (io (savePolygonBtn_click backend local_session_edited)) = []
   \<and> statusEl (savePolygonBtn_click backend local_session_edited) = StLocalPreviewOnly
   \<and> originalPolygonGeoJSON (savePolygonBtn_click backend local_session_edited)
       = FeatureCollection
           [Feature ''Polygon'' (triangle 0) (JObj [(''school_name'', JStr ''north'')]),
            Feature ''Polygon'' (triangle 5) (JObj [(''school_name'', JStr ''north'')]),
            Feature ''Polygon''
              (JArr [JArr [JArr [JNum 2.5, JNum 2], JArr [JNum 3, JNum 2], JArr [JNum 3, JNum 3]]])
              (JObj [(''school_name'', JStr ''south'')])]
   \<and> originalPolygonGeoJSON (savePolygonBtn_click backend local_session_edited) \<noteq> district_file"
  by (simp add: local_session_edited_def local_session_eq togglePolygonEditing_def dragged_polygon_def
        savePolygonBtn_click_def saveGeoJSON_not_server step_defs initial_state_def
        overlaysToGeoJSON_def toLngLatArray_def triangle_def district_file_def or_empty_object_def)

text \<open>
  C5. A click on \<^verbatim>\<open>save polygons\<close> or \<^verbatim>\<open>save points\<close> while the file is not server-sourced
  or while a school filter is active issues no HTTP request, and the status line then
  shows why: \<^verbatim>\<open>switch to all schools before saving\<close> under a filter, otherwise \<^verbatim>\<open>nothing
  loaded to save\<close> for an empty layer or \<^verbatim>\<open>local files are preview only\<close>. \<^verbatim>\<open>saveGeoJSON\<close>
  itself, for any layer kind, only sets that last text when the file is not server-sourced.
\<close>

theorem save_rejected_before_network:
  assumes "currentFileSource s \<noteq> Server \<or> isSchoolFilterActive s"
  shows "requests (io (savePolygonBtn_click net s)) = requests (io s)
         \<and> statusEl (savePolygonBtn_click net s)
             = (if isSchoolFilterActive s then StSwitchToAllBeforeSave
                else if no_overlays (currentPolygonLayer s) then StNoPolygonsToSave
                else StLocalPreviewOnly)
         \<and> requests (io (savePointsBtn_click net s)) = requests (io s)
         \<and> statusEl (savePointsBtn_click net s)
             = (if isSchoolFilterActive s then StSwitchToAllBeforeSave
                else if no_overlays (currentPointsLayer s) then StNoPointsToSave
                else StLocalPreviewOnly)
         \<and> (currentFileSource s \<noteq> Server \<longrightarrow>
              (\<forall>kind geojson. saveGeoJSON net kind geojson s = (None, setStatus StLocalPreviewOnly s)))"
  using assms
  by (auto simp: savePolygonBtn_click_def savePointsBtn_click_def saveGeoJSON_not_server
        try_catch_def and_then_def done_step_def setStatus_def Let_def)

text \<open>
  The local session (polygons loaded, no points), and the server session with the filter set
  to school \<^verbatim>\<open>north\<close>.
\<close>

theorem save_rejected_before_network_witness:
  "currentFileSource local_session_edited \<noteq> Server
   \<and> requests (io (savePolygonBtn_click backend local_session_edited)) = []
   \<and> statusEl (savePolygonBtn_click backend local_session_edited) = StLocalPreviewOnly
   \<and> statusEl (savePointsBtn_click backend local_session_edited) = StNoPointsToSave
   \<and> isSchoolFilterActive (editing_points\<lparr>schoolSelect := ''north''\<rparr>)
   \<and> requests (io (savePointsBtn_click backend (editing_points\<lparr>schoolSelect := ''north''\<rparr>)))
        = requests (io (editing_points\<lparr>schoolSelect := ''north''\<rparr>))
   \<and> statusEl (savePointsBtn_click backend (editing_points\<lparr>schoolSelect := ''north''\<rparr>))
        = StSwitchToAllBeforeSave"
  using save_rejected_before_network [of local_session_edited backend]
        save_rejected_before_network [of "editing_points\<lparr>schoolSelect := ''north''\<rparr>" backend]
  by (simp add: local_session_edited_def local_session_eq togglePolygonEditing_def step_defs
        initial_state_def)

section \<open>Edit sessions and layer visibility\<close>

text \<open>What does hold: a toggle on an empty layer or under a filter changes no edit flag.\<close>

lemma toggle_rejected:
  "isSchoolFilterActive s \<or> no_overlays (currentPolygonLayer s) \<Longrightarrow>
   isPolygonEditing (togglePolygonEditing s) = isPolygonEditing s"
  "isSchoolFilterActive s \<or> no_overlays (currentPointsLayer s) \<Longrightarrow>
   isPointsEditing (togglePointsEditing s) = isPointsEditing s"
  by (auto simp: togglePolygonEditing_def togglePointsEditing_def setStatus_def no_overlays_def
        split: option.splits)


text \<open>
  C3. The invariant does not hold in every reachable state. In the session below the
  operator has loaded a file with its points and switched point editing on (no filter, two
  markers). Unticking \<^verbatim>\<open>show points\<close> clears the points layer and leaves the edit session
  active; a further click on \<^verbatim>\<open>edit points\<close> is turned down for want of overlays, and the
  session is still active.
\<close>

theorem hidden_points_keep_edit_session:
  "isPointsEditing editing_points
   \<and> \<not> isSchoolFilterActive editing_points
   \<and> \<not> no_overlays (currentPointsLayer editing_points)
   \<and> currentPointsLayer (showPointsCheckbox_change backend False editing_points) = None
   \<and> isPointsEditing (showPointsCheckbox_change backend False editing_points)
   \<and> statusEl (togglePointsEditing (showPointsCheckbox_change backend False editing_points))
        = StNoPointsToEdit
   \<and> isPointsEditing (togglePointsEditing (showPointsCheckbox_change backend False editing_points))"
  using editing_points_facts
  by (simp add: showPointsCheckbox_change_def togglePointsEditing_def step_defs)

section \<open>A missing points or items file\<close>

text \<open>
  C8. \<^verbatim>\<open>loadPointsForFile\<close> and \<^verbatim>\<open>loadItemsForFile\<close> catch every error: they return a state
  and nothing else. When the cache has nothing for the file and the backend answers the
  read with a status that is not a success (status codes have three digits), then for 404
  the status line says that the file does not exist yet, and for any other code it shows
  the load failure with the code. Either way the layer and its original snapshot are what
  they were before the load, so that the layer, cleared when the file was selected, is
  left empty.
\<close>

theorem not_found_is_absence:
  "(\<forall>t resp. \<not> truthy (fst (cacheGet (clock (io s)) (Some (responseCache s Points)) (Name file)))
        \<and> net (length (requests (io s))) (Get (ApiPoints file)) = (t, Resolved resp)
        \<and> \<not> ok resp \<and> status resp < 1000 \<longrightarrow>
      statusEl (loadPointsForFile net file s)
        = (if status resp = 404 then StPointsMissing
           else StPointsLoadFailed (msg_request_failed (status resp)))
      \<and> currentPointsLayer (loadPointsForFile net file s) = currentPointsLayer s
      \<and> originalPointsGeoJSON (loadPointsForFile net file s) = originalPointsGeoJSON s
      \<and> requests (io (loadPointsForFile net file s)) = requests (io s) @ [Get (ApiPoints file)])
   \<and> (\<forall>t resp. \<not> truthy (fst (cacheGet (clock (io s)) (Some (responseCache s Items)) (Name file)))
        \<and> net (length (requests (io s))) (Get (ApiItems file)) = (t, Resolved resp)
        \<and> \<not> ok resp \<and> status resp < 1000 \<longrightarrow>
      statusEl (loadItemsForFile net file s)
        = (if status resp = 404 then StItemsMissing
           else StItemsLoadFailed (msg_request_failed (status resp)))
      \<and> currentItemsLayer (loadItemsForFile net file s) = currentItemsLayer s
      \<and> originalItemsGeoJSON (loadItemsForFile net file s) = originalItemsGeoJSON s
      \<and> requests (io (loadItemsForFile net file s)) = requests (io s) @ [Get (ApiItems file)])"
  by (auto simp: loadPointsForFile_def loadItemsForFile_def fetchJson_def fetchJsonWithCache_def fetch_def
        store_cache_def setStatus_def includes_404 msg_request_failed_nonempty
        split: prod.splits option.splits)

text \<open>
  The items of \<^verbatim>\<open>a.geojson\<close>, which the backend does not have (404), in the server session;
  and the points of a file on a backend that answers 500, in a fresh session.
\<close>

theorem not_found_is_absence_witness:
  "\<not> truthy (fst (cacheGet (clock (io editing_points)) (Some (responseCache editing_points Items)) (Name ''a.geojson'')))
   \<and> backend (length (requests (io editing_points))) (Get (ApiItems ''a.geojson''))
       = (5000, Resolved \<lparr>status = 404, body = Inr (JObj [(''detail'', JStr ''Not Found'')])\<rparr>)
   \<and> statusEl (loadItemsForFile backend ''a.geojson'' editing_points) = StItemsMissing
   \<and> currentItemsLayer (loadItemsForFile backend ''a.geojson'' editing_points) = None
   \<and> \<not> truthy (fst (cacheGet (clock (io (initial_state 0))) (Some (responseCache (initial_state 0) Points)) (Name ''a.geojson'')))
   \<and> net_500 (length (requests (io (initial_state 0)))) (Get (ApiPoints ''a.geojson''))
       = (10, Resolved \<lparr>status = 500, body = Inl ''Unexpected token''\<rparr>)
   \<and> statusEl (loadPointsForFile net_500 ''a.geojson'' (initial_state 0))
       = StPointsLoadFailed (msg_request_failed 500)
   \<and> currentPointsLayer (loadPointsForFile net_500 ''a.geojson'' (initial_state 0)) = None"
  using not_found_is_absence [of editing_points "''a.geojson''" backend]
        not_found_is_absence [of "initial_state 0" "''a.geojson''" net_500]
        editing_points_facts
  by (simp add: backend_def net_500_def ok_def cacheGet_def initial_state_def)

section \<open>What the loading steps leave alone\<close>

lemma setHistoryOptions_state: "snd (setHistoryOptions items s) = s\<lparr>historySelect := []\<rparr>"
  by (simp add: setHistoryOptions_def Let_def split: json.splits option.splits)

lemma setHistoryOptions_result:
  "setHistoryOptions items s = (r, s') \<Longrightarrow> s' = s\<lparr>historySelect := []\<rparr>"
  using setHistoryOptions_state [of items s] by simp

lemma resetHistoryOptions_state: "resetHistoryOptions s = s\<lparr>historySelect := []\<rparr>"
  by (simp add: resetHistoryOptions_def setHistoryOptions_state)



lemma loadHistoryList_keeps:
  "currentPolygonLayer (loadHistoryList net force s) = currentPolygonLayer s"
  "originalPolygonGeoJSON (loadHistoryList net force s) = originalPolygonGeoJSON s"
  "currentItemsLayer (loadHistoryList net force s) = currentItemsLayer s"
  "isPolygonEditing (loadHistoryList net force s) = isPolygonEditing s"
  "isPointsEditing (loadHistoryList net force s) = isPointsEditing s"
  "polygonEditors (loadHistoryList net force s) = polygonEditors s"
  "currentFileSource (loadHistoryList net force s) = currentFileSource s"
  by (auto simp: loadHistoryList_def fetchJson_def store_cache_def try_catch_def setStatus_def
        resetHistoryOptions_state Let_def
        split: prod.splits sum.splits option.splits
        dest!: setHistoryOptions_result)


lemma applyHistoryData_current:
  assumes "applyHistoryData d True s = (None, s1)"
  shows "currentFileSource s1 = Server" "currentItemsLayer s1 = None" "historySelect s1 = []"
        "io s1 = io s" "responseCache s1 = responseCache s"
  using assms
  by (auto simp: applyHistoryData_def and_then_def done_step_def Let_def
        renderGeoJSON_def renderPointsGeoJSON_def setStatus_def
        clearAllLayers_def clearPolygonLayer_def clearPointsLayer_def clearItemsLayer_def
        split: if_splits option.splits sum.splits prod.splits)

section \<open>Promoting a history version\<close>

lemma viewing_history_facts:
  "historySelect viewing_history = ''v1''
   \<and> currentFileSource viewing_history = History
   \<and> currentFileName viewing_history = Some ''a.geojson''
   \<and> schoolSelect viewing_history = []
   \<and> schoolOptions viewing_history = [''north'', ''south'']
   \<and> \<not> showPointsCheckbox viewing_history \<and> \<not> showItemsCheckbox viewing_history
   \<and> responseCache viewing_history HistoryList (Query ''a.geojson'' [])
        = Some \<lparr>ts = 3000, data = history_list\<rparr>
   \<and> io viewing_history
        = \<lparr>requests = [Get ApiIndex, Get (ApiPolygons ''a.geojson''),
                        Get (ApiHistoryList ''a.geojson'' []), Get (ApiHistoryItem ''v1'')],
           clock = 4000\<rparr>"
  by (simp add: viewing_history_def historySelect_change_def loadHistoryById_def applyHistoryData_def
        fileSelect_change_def loadSelectedFile_def string_member_def select_assign_def
        loadIndex_def loadHistoryList_def renderGeoJSON_def
        step_defs fetch_defs backend_def initial_state_def
        overlays_district_file school_options_district_file history_list_def history_snapshot_def)

lemma loadHistoryList_cached:
  assumes "currentFileName s = Some fname" "fname \<noteq> []" "currentFileSource s = Server"
    and "responseCache s HistoryList (Query fname (schoolSelect s)) = Some e"
    and "clock (io s) - ts e \<le> CACHE_TTL_MS" "truthy (data e)"
  shows "io (loadHistoryList net False s) = io s"
    and "responseCache (loadHistoryList net False s) = responseCache s"
  using assms
  by (auto simp: loadHistoryList_def fetchJson_def fetchJsonWithCache_def cacheGet_def store_cache_def
        try_catch_def setStatus_def resetHistoryOptions_state getSelectedSchool_def Let_def
        split: prod.splits sum.splits option.splits
        dest!: setHistoryOptions_result)

lemma loadHistoryList_missing:
  assumes "currentFileName s = Some fname" "fname \<noteq> []" "currentFileSource s = Server"
    and "responseCache s HistoryList (Query fname (schoolSelect s)) = None"
  shows "requests (io (loadHistoryList net False s))
           = requests (io s) @ [Get (ApiHistoryList fname (schoolSelect s))]"
  using assms
  by (auto simp: loadHistoryList_def fetchJson_def fetchJsonWithCache_def cacheGet_def store_cache_def
        fetch_def try_catch_def setStatus_def resetHistoryOptions_state getSelectedSchool_def Let_def
        split: prod.splits sum.splits option.splits fetch_result.splits
        dest!: setHistoryOptions_result)

lemma restore_steps:
  assumes "historySelect s \<noteq> []"
    and "net (length (requests (io s))) (Get (ApiHistoryItem (historySelect s))) = (t, Resolved resp)"
    and "ok resp" "body resp = Inr d"
    and "applyHistoryData d True
           ((setStatus StRestoring s)\<lparr>io := \<lparr>requests = requests (io s) @ [Get (ApiHistoryItem (historySelect s))],
                                              clock = t\<rparr>\<rparr>) = (None, s1)"
  shows "restoreHistoryAsCurrent net s = loadHistoryList net False (setStatus StRestored s1)"
  using assms
  by (simp add: restoreHistoryAsCurrent_def try_catch_def and_then_def done_step_def fetch_def setStatus_def)

text \<open>
  Against C2 as stated. The operator has loaded \<^verbatim>\<open>a.geojson\<close> (the history list was read
  then, at clock 3000, and cached) and is looking at version \<^verbatim>\<open>v1\<close>. The click on
  \<^verbatim>\<open>restore\<close> makes the file server-sourced again and reads the snapshot, but the entry of
  the history list is still the one cached before, and the only request of the click is
  the read of the snapshot: the list is served from the cache.
\<close>

theorem restore_serves_cached_history_counterexample:
  "historySelect viewing_history = ''v1''
   \<and> responseCache viewing_history HistoryList (Query ''a.geojson'' [])
        = Some \<lparr>ts = 3000, data = history_list\<rparr>
   \<and> currentFileSource (restoreHistoryAsCurrent backend viewing_history) = Server
   \<and> currentFileName (restoreHistoryAsCurrent backend viewing_history) = Some ''a.geojson''
   \<and> schoolSelect (restoreHistoryAsCurrent backend viewing_history) = []
   \<and> responseCache (restoreHistoryAsCurrent backend viewing_history) HistoryList (Query ''a.geojson'' [])
        = Some \<lparr>ts = 3000, data = history_list\<rparr>
   \<and> requests (io (restoreHistoryAsCurrent backend viewing_history))
        = [Get ApiIndex, Get (ApiPolygons ''a.geojson''), Get (ApiHistoryList ''a.geojson'' []),
           Get (ApiHistoryItem ''v1''), Get (ApiHistoryItem ''v1'')]"
  using viewing_history_facts
  by (simp add: restoreHistoryAsCurrent_def applyHistoryData_def string_member_def select_assign_def
        loadHistoryList_def renderGeoJSON_def step_defs fetch_defs backend_def
        overlays_district_file history_list_def history_snapshot_def CACHE_TTL_MS_def)

text \<open>
  C2, amended. When the restore button is clicked with a version selected, the read of the
  snapshot succeeds and the snapshot renders, then afterwards the file source is
  \<^verbatim>\<open>server\<close> and the items layer is cleared, and the history list has been reloaded by
  \<^verbatim>\<open>loadHistoryList()\<close> without force and without any invalidation: when the cache
  holds a list for the file and the selected school that is no older than the TTL, that
  list is served, no request but the read of the snapshot is issued and the caches are
  untouched; when it holds none, the list is requested from the backend.
\<close>

theorem restore_reloads_history_through_cache:
  assumes "historySelect s \<noteq> []"
    and "net (length (requests (io s))) (Get (ApiHistoryItem (historySelect s))) = (t, Resolved resp)"
    and "ok resp" "body resp = Inr d"
    and "applyHistoryData d True
           ((setStatus StRestoring s)\<lparr>io := \<lparr>requests = requests (io s) @ [Get (ApiHistoryItem (historySelect s))],
                                              clock = t\<rparr>\<rparr>) = (None, s1)"
  shows "restoreHistoryAsCurrent net s = loadHistoryList net False (setStatus StRestored s1)
     \<and> currentFileSource (restoreHistoryAsCurrent net s) = Server
     \<and> currentItemsLayer (restoreHistoryAsCurrent net s) = None
     \<and> (\<forall>fname e. currentFileName s1 = Some fname \<and> fname \<noteq> []
            \<and> responseCache s HistoryList (Query fname (schoolSelect s1)) = Some e
            \<and> t - ts e \<le> CACHE_TTL_MS \<and> truthy (data e) \<longrightarrow>
          requests (io (restoreHistoryAsCurrent net s))
            = requests (io s) @ [Get (ApiHistoryItem (historySelect s))]
          \<and> responseCache (restoreHistoryAsCurrent net s) = responseCache s)
     \<and> (\<forall>fname. currentFileName s1 = Some fname \<and> fname \<noteq> []
            \<and> responseCache s HistoryList (Query fname (schoolSelect s1)) = None \<longrightarrow>
          requests (io (restoreHistoryAsCurrent net s))
            = requests (io s) @ [Get (ApiHistoryItem (historySelect s)),
                                 Get (ApiHistoryList fname (schoolSelect s1))])"
proof -
  let ?s0 = "(setStatus StRestoring s)\<lparr>io := \<lparr>requests = requests (io s) @ [Get (ApiHistoryItem (historySelect s))],
                                              clock = t\<rparr>\<rparr>"
  let ?s2 = "setStatus StRestored s1"
  note a = applyHistoryData_current [OF assms(5)]
  have r: "restoreHistoryAsCurrent net s = loadHistoryList net False ?s2"
    using assms by (rule restore_steps)
  have io1: "io s1 = \<lparr>requests = requests (io s) @ [Get (ApiHistoryItem (historySelect s))], clock = t\<rparr>"
    using a(4) by (simp add: setStatus_def)
  have rc1: "responseCache s1 = responseCache s"
    using a(5) by (simp add: setStatus_def)
  have src: "currentFileSource (restoreHistoryAsCurrent net s) = Server"
    using a(1) by (simp add: r loadHistoryList_keeps setStatus_def)
  have items: "currentItemsLayer (restoreHistoryAsCurrent net s) = None"
    using a(2) by (simp add: r loadHistoryList_keeps setStatus_def)
  have hit: "requests (io (restoreHistoryAsCurrent net s))
            = requests (io s) @ [Get (ApiHistoryItem (historySelect s))]
          \<and> responseCache (restoreHistoryAsCurrent net s) = responseCache s"
    if h: "currentFileName s1 = Some fname" "fname \<noteq> []"
          "responseCache s HistoryList (Query fname (schoolSelect s1)) = Some e"
          "t - ts e \<le> CACHE_TTL_MS" "truthy (data e)" for fname e
  proof -
    have "io (loadHistoryList net False ?s2) = io ?s2"
      and "responseCache (loadHistoryList net False ?s2) = responseCache ?s2"
      using h a(1) io1 rc1
      by (simp_all add: loadHistoryList_cached [where fname = fname and e = e] setStatus_def)
    then show ?thesis using io1 rc1 by (simp add: r setStatus_def)
  qed
  have miss: "requests (io (restoreHistoryAsCurrent net s))
            = requests (io s) @ [Get (ApiHistoryItem (historySelect s)),
                                 Get (ApiHistoryList fname (schoolSelect s1))]"
    if h: "currentFileName s1 = Some fname" "fname \<noteq> []"
          "responseCache s HistoryList (Query fname (schoolSelect s1)) = None" for fname
  proof -
    have "requests (io (loadHistoryList net False ?s2))
           = requests (io ?s2) @ [Get (ApiHistoryList fname (schoolSelect ?s2))]"
      using h a(1) rc1 by (intro loadHistoryList_missing) (simp_all add: setStatus_def)
    then show ?thesis using io1 by (simp add: r setStatus_def)
  qed
  from r src items hit miss show ?thesis by blast
qed


theorem restore_reloads_history_through_cache_witness:
  "historySelect viewing_history \<noteq> []
   \<and> backend (length (requests (io viewing_history))) (Get (ApiHistoryItem (historySelect viewing_history)))
        = (5000, Resolved \<lparr>status = 200, body = Inr history_snapshot\<rparr>)
   \<and> ok \<lparr>status = 200, body = Inr history_snapshot\<rparr>
   \<and> responseCache viewing_history HistoryList (Query ''a.geojson'' [])
        = Some \<lparr>ts = 3000, data = history_list\<rparr>
   \<and> 5000 - ts \<lparr>ts = 3000, data = history_list\<rparr> \<le> CACHE_TTL_MS
   \<and> currentFileSource (restoreHistoryAsCurrent backend viewing_history) = Server
   \<and> currentItemsLayer (restoreHistoryAsCurrent backend viewing_history) = None
   \<and> requests (io (restoreHistoryAsCurrent backend viewing_history))
        = requests (io viewing_history) @ [Get (ApiHistoryItem ''v1'')]
   \<and> responseCache (restoreHistoryAsCurrent backend viewing_history) = responseCache viewing_history"
proof -
  let ?s1 = "viewing_history
      \<lparr>statusEl := StLoaded,
       io := \<lparr>requests = requests (io viewing_history) @ [Get (ApiHistoryItem (historySelect viewing_history))],
              clock = 5000\<rparr>,
       currentFileName := Some ''a.geojson'', currentFileSource := Server, schoolSelect := [],
       currentPolygonLayer := Some
          [Polygon (Rings [[LngLat 0 0, LngLat 1 0, LngLat 1 1]]) (JObj [(''school_name'', JStr ''north'')]),
           Polygon (Rings [[LngLat 5 5, LngLat 6 5, LngLat 6 6]]) (JObj [(''school_name'', JStr ''north'')]),
           Polygon (Rings [[LngLat 2 2, LngLat 3 2, LngLat 3 3]]) (JObj [(''school_name'', JStr ''south'')])],
       currentPointsLayer := None, currentItemsLayer := None,
       originalPolygonGeoJSON := district_file, historySelect := []\<rparr>"
  have h1: "historySelect viewing_history \<noteq> []"
    using viewing_history_facts by simp
  have h2: "backend (length (requests (io viewing_history))) (Get (ApiHistoryItem (historySelect viewing_history)))
        = (5000, Resolved \<lparr>status = 200, body = Inr history_snapshot\<rparr>)"
    using viewing_history_facts by (simp add: backend_def)
  have h3: "ok \<lparr>status = 200, body = Inr history_snapshot\<rparr>"
    by (simp add: ok_def)
  have h4: "body \<lparr>status = 200, body = Inr history_snapshot\<rparr> = Inr history_snapshot"
    by simp
  have h5: "applyHistoryData history_snapshot True
           ((setStatus StRestoring viewing_history)
              \<lparr>io := \<lparr>requests = requests (io viewing_history) @ [Get (ApiHistoryItem (historySelect viewing_history))],
                       clock = 5000\<rparr>\<rparr>) = (None, ?s1)"
    using viewing_history_facts
    by (simp add: applyHistoryData_def string_member_def select_assign_def renderGeoJSON_def step_defs
          overlays_district_file history_snapshot_def)
  note T = restore_reloads_history_through_cache
            [of viewing_history backend 5000 "\<lparr>status = 200, body = Inr history_snapshot\<rparr>"
                history_snapshot ?s1, OF h1 h2 h3 h4 h5]
  note src = T [THEN conjunct2, THEN conjunct1]
  note items = T [THEN conjunct2, THEN conjunct2, THEN conjunct1]
  have hit: "requests (io (restoreHistoryAsCurrent backend viewing_history))
               = requests (io viewing_history) @ [Get (ApiHistoryItem (historySelect viewing_history))]
             \<and> responseCache (restoreHistoryAsCurrent backend viewing_history) = responseCache viewing_history"
    using viewing_history_facts
    by (intro T [THEN conjunct2, THEN conjunct2, THEN conjunct2, THEN conjunct1, rule_format,
                 of "''a.geojson''" "\<lparr>ts = 3000, data = history_list\<rparr>"])
       (simp add: CACHE_TTL_MS_def history_list_def)
  show ?thesis
    using src items hit h2 viewing_history_facts
    by (simp add: CACHE_TTL_MS_def ok_def)
qed

section \<open>Resetting edits\<close>






















lemma field_Feature [simp]:
  "field (Feature gt coords props) ''geometry''
     = Some (JObj [(''type'', JStr gt), (''coordinates'', coords)])"
  "field (Feature gt coords props) ''properties'' = Some props"
  "field (Feature gt coords props) ''type'' = Some (JStr ''Feature'')"
  by (simp_all add: Feature_def)


lemma read_plain_polygon:
  "truthy props \<Longrightarrow>
   overlay_features ''Polygon'' (Polygon (if rings = [] then Ring [] else Rings rings) props)
     = [Feature ''Polygon'' (JArr (map toLngLatArray rings)) props]"
  by (simp add: or_empty_object_def)


lemma read_plain_point:
  "truthy props \<Longrightarrow>
   overlay_features ''Point'' (Marker pos props d)
     = [Feature ''Point'' (JArr [JNum (lng pos), JNum (lat pos)]) props]"
  by (simp add: or_empty_object_def)




















lemma truthy_plain [simp]: "truthy plain_file" "truthy items_file"
  by (simp_all add: plain_file_def items_file_def)











end
